theory Spec2Isabelle
  imports Complex_Main
begin

section \<open>JavaScript values, errors and preconditions\<close>

text \<open>
  The verifier (lib/verifier.js) and the utilities it calls (Utils and Defaults) are
  embedded as HOL functions. A JavaScript exception is a value \<open>Inl e\<close> of the result
  type \<open>error + 'a\<close>; a normal return is \<open>Inr v\<close>.

  \<^item> \<open>InvalidArgument\<close>: \<^verbatim>\<open>$.checkArgument\<close> of the preconditions package failed;
  \<^item> \<open>InvalidState\<close>: \<^verbatim>\<open>$.checkState\<close> failed;
  \<^item> \<open>TypeError\<close>: a property was read from \<^verbatim>\<open>undefined\<close>;
  \<^item> \<open>TxpNotSupported\<close>: \<^verbatim>\<open>throw new Error('Transaction proposal not supported')\<close>;
  \<^item> \<open>LibraryError\<close>: a call into Bitcore or sjcl threw.
\<close>

datatype error = InvalidArgument | InvalidState | TypeError | TxpNotSupported | LibraryError

definition checkArgument :: "bool \<Rightarrow> error + unit" where
  "checkArgument b = (if b then Inr () else Inl InvalidArgument)"

definition checkState :: "bool \<Rightarrow> error + unit" where
  "checkState b = (if b then Inr () else Inl InvalidState)"

text \<open>Sequencing: the statements after a throwing statement do not run.\<close>

definition seq :: "error + 'a \<Rightarrow> ('a \<Rightarrow> error + 'b) \<Rightarrow> error + 'b" where
  "seq r f = (case r of Inl e \<Rightarrow> Inl e | Inr v \<Rightarrow> f v)"

text \<open>\<^verbatim>\<open>try { r } catch (e) { h }\<close>.\<close>

definition try_catch :: "error + 'a \<Rightarrow> (error \<Rightarrow> error + 'a) \<Rightarrow> error + 'a" where
  "try_catch r h = (case r of Inl e \<Rightarrow> h e | Inr v \<Rightarrow> Inr v)"

text \<open>A call into an external library: \<open>None\<close> is a thrown exception.\<close>

definition lib :: "'a option \<Rightarrow> error + 'a" where
  "lib r = (case r of None \<Rightarrow> Inl LibraryError | Some v \<Rightarrow> Inr v)"

fun mapM :: "('a \<Rightarrow> error + 'b) \<Rightarrow> 'a list \<Rightarrow> error + 'b list" where
  "mapM f [] = Inr []"
| "mapM f (x # xs) = seq (f x) (\<lambda>y. seq (mapM f xs) (\<lambda>ys. Inr (y # ys)))"

fun foldM :: "('s \<Rightarrow> 'a \<Rightarrow> error + 's) \<Rightarrow> 's \<Rightarrow> 'a list \<Rightarrow> error + 's" where
  "foldM f s [] = Inr s"
| "foldM f s (x # xs) = seq (f s x) (\<lambda>s'. foldM f s' xs)"

text \<open>
  A string-valued property is a \<open>string option\<close>: \<open>None\<close> is \<^verbatim>\<open>undefined\<close> (or
  \<^verbatim>\<open>null\<close>: the source never tells them apart). JavaScript's truthiness of such a
  value: \<^verbatim>\<open>undefined\<close> and the empty string are falsy.
\<close>

definition truthy :: "string option \<Rightarrow> bool" where
  "truthy s = (case s of None \<Rightarrow> False | Some v \<Rightarrow> v \<noteq> [])"

text \<open>\<^verbatim>\<open>a || b\<close> on such values.\<close>

definition js_or :: "string option \<Rightarrow> string option \<Rightarrow> string option" where
  "js_or a b = (if truthy a then a else b)"

text \<open>\<^verbatim>\<open>[a, b, c].join('|')\<close>: an undefined element is joined as the empty string.\<close>

definition js_str :: "string option \<Rightarrow> string" where
  "js_str s = (case s of None \<Rightarrow> [] | Some v \<Rightarrow> v)"

text \<open>\<^verbatim>\<open>_.difference(xs, ys)\<close> of lodash: the elements of \<open>xs\<close> that are not in \<open>ys\<close>.\<close>

definition difference :: "'a list \<Rightarrow> 'a list \<Rightarrow> 'a list" where
  "difference xs ys = filter (\<lambda>x. x \<notin> set ys) xs"

subsection \<open>Numbers\<close>

text \<open>
  A number of the source is an IEEE 754 double. The amounts of this layer are counts of
  the smallest unit of the coin, so the model has the doubles whose value is an integer,
  the two infinities and \<^verbatim>\<open>NaN\<close>. A numeric property of an input of the model holds an
  integer, as a JSON text does; the number read from it is the double nearest to it
  (\<open>to_double\<close>: 53 bits of precision, ties to the even neighbour, infinity from
  \<open>2 ^ 1024 - 2 ^ 970\<close> on). A sum or a difference of two doubles is the exact result
  rounded the same way.
\<close>

datatype double = NotANumber | PosInfinity | NegInfinity | Finite int

text \<open>The distance between neighbouring doubles at the magnitude \<open>a\<close>.\<close>

fun quantum :: "nat \<Rightarrow> nat" where
  "quantum a = (if a < 2 ^ 53 then 1 else 2 * quantum (a div 2))"

declare quantum.simps [simp del]

definition round_half_even :: "nat \<Rightarrow> nat \<Rightarrow> nat" where
  "round_half_even a q =
     (let lo = a div q; r = a mod q
      in if 2 * r < q then lo
         else if 2 * r > q then lo + 1
         else if even lo then lo else lo + 1)"

definition to_double :: "int \<Rightarrow> double" where
  "to_double x =
     (let a = nat \<bar>x\<bar>; q = quantum a; v = round_half_even a q * q
      in if v \<ge> 2 ^ 1024 then (if x < 0 then NegInfinity else PosInfinity)
         else Finite (if x < 0 then - int v else int v))"

text \<open>\<^verbatim>\<open>a + b\<close>, \<^verbatim>\<open>a - b\<close>, \<^verbatim>\<open>a <= b\<close> and \<^verbatim>\<open>a >= b\<close> on numbers: a comparison with
  \<^verbatim>\<open>NaN\<close> is false.\<close>

fun double_plus :: "double \<Rightarrow> double \<Rightarrow> double" where
  "double_plus (Finite x) (Finite y) = to_double (x + y)"
| "double_plus NotANumber b = NotANumber"
| "double_plus a NotANumber = NotANumber"
| "double_plus PosInfinity NegInfinity = NotANumber"
| "double_plus NegInfinity PosInfinity = NotANumber"
| "double_plus PosInfinity b = PosInfinity"
| "double_plus NegInfinity b = NegInfinity"
| "double_plus a PosInfinity = PosInfinity"
| "double_plus a NegInfinity = NegInfinity"

fun double_negate :: "double \<Rightarrow> double" where
  "double_negate (Finite x) = Finite (- x)"
| "double_negate PosInfinity = NegInfinity"
| "double_negate NegInfinity = PosInfinity"
| "double_negate NotANumber = NotANumber"

definition double_minus :: "double \<Rightarrow> double \<Rightarrow> double" where
  "double_minus a b = double_plus a (double_negate b)"

fun double_le :: "double \<Rightarrow> double \<Rightarrow> bool" where
  "double_le (Finite x) (Finite y) = (x \<le> y)"
| "double_le NotANumber b = False"
| "double_le a NotANumber = False"
| "double_le NegInfinity b = True"
| "double_le a PosInfinity = True"
| "double_le PosInfinity b = False"
| "double_le a NegInfinity = False"

definition double_ge :: "double \<Rightarrow> double \<Rightarrow> bool" where
  "double_ge a b = double_le b a"

text \<open>\<^verbatim>\<open>a == b\<close> and \<^verbatim>\<open>a != b\<close> on two numeric properties, each a number or
  \<^verbatim>\<open>undefined\<close>: the numbers read from them are compared.\<close>

definition same_number :: "int option \<Rightarrow> int option \<Rightarrow> bool" where
  "same_number a b = (map_option to_double a = map_option to_double b)"

text \<open>
  The \<^verbatim>\<open>version\<close> of a proposal is read through \<^verbatim>\<open>parseInt\<close>, so it may be a number,
  a string or absent.
\<close>

datatype jsval = JUndefined | JNum int | JStr string

section \<open>The data model\<close>

record ring_entry =
  r_xPubKey :: string
  r_requestPubKey :: "string option"

record credentials =
  c_network :: string
  c_addressType :: "string option"
  c_m :: nat
  c_n :: nat
  c_publicKeyRing :: "ring_entry list"
  c_walletPrivKey :: "string option"
  c_xPubKey :: "string option"

text \<open>
  Modelled from the spec: \<^verbatim>\<open>credentials.isComplete()\<close> (lib/credentials.js is not among
  the sources). Section 3 of the specification: all \<open>n\<close> ring entries are present and the
  threshold fields are set.
\<close>

definition isComplete :: "credentials \<Rightarrow> bool" where
  "isComplete c = (c_m c \<noteq> 0 \<and> c_n c \<noteq> 0 \<and> length (c_publicKeyRing c) = c_n c)"

text \<open>An address object as the server sends it, and a derived address.\<close>

record address =
  a_address :: "string option"
  a_type :: "string option"
  a_path :: string
  a_publicKeys :: "string list"

record derived_address =
  d_address :: string
  d_path :: string
  d_publicKeys :: "string list"

text \<open>
  Modelled from the spec: \<^verbatim>\<open>Constants\<close> (lib/common/constants.js is not among the
  sources). The source reads \<^verbatim>\<open>Constants.SCRIPT_TYPES.P2SH\<close>,
  \<^verbatim>\<open>Constants.SCRIPT_TYPES.P2PKH\<close> and \<^verbatim>\<open>Constants.PATHS.REQUEST_KEY_AUTH\<close>; their
  values are parameters, and \<^verbatim>\<open>_.values(Constants.SCRIPT_TYPES)\<close> holds the two script
  types the specification names (multisig and single-signature).
\<close>

record constants =
  SCRIPT_TYPES_P2SH :: string
  SCRIPT_TYPES_P2PKH :: string
  PATHS_REQUEST_KEY_AUTH :: string

definition SCRIPT_TYPES_values :: "constants \<Rightarrow> string option list" where
  "SCRIPT_TYPES_values C = [Some (SCRIPT_TYPES_P2SH C), Some (SCRIPT_TYPES_P2PKH C)]"

subsection \<open>Transactions\<close>

record utxo =
  i_txid :: string
  i_satoshis :: int
  i_publicKeys :: "string list"

record txp_output =
  o_toAddress :: "string option"
  o_script :: "string option"
  o_amount :: int
  o_message :: "string option"

text \<open>A Bitcore transaction under construction: what \<^verbatim>\<open>buildTx\<close> reads of it is the
  list \<^verbatim>\<open>t.outputs\<close> and the \<^verbatim>\<open>satoshis\<close> of each output.\<close>

record txout =
  out_script :: string
  out_satoshis :: int

record tx =
  tx_inputs :: "utxo list"
  tx_outputs :: "txout list"
  tx_fee :: "int option"
  tx_changeScript :: "string option"

section \<open>The external libraries\<close>

text \<open>
  Bitcore (keys, addresses, signatures, transactions) and sjcl (symmetric encryption,
  hashing) are external collaborators. Every function of the model takes their behaviour
  as a parameter \<open>L\<close>, so a theorem about the model holds whatever the libraries compute.
  A public key is represented by its string form. A result \<open>None\<close> is a thrown exception.

  The function \<^verbatim>\<open>parseInt\<close> of the language is a parameter too: how it reads a number
  (through its decimal form) or a string (white space, sign, radix prefix, digits) is
  not written out again. Its result is an integer, an infinity or \<^verbatim>\<open>NaN\<close>.
\<close>

record libraries =
  HDPublicKey_deriveChild :: "string \<Rightarrow> string \<Rightarrow> string option"
  Address_createMultisig :: "string list \<Rightarrow> nat \<Rightarrow> string \<Rightarrow> string option"
  Address_fromPublicKey :: "string \<Rightarrow> string \<Rightarrow> string option"
  PrivateKey_toPublicKey :: "string \<Rightarrow> string option"
  PublicKey_new :: "string \<Rightarrow> string option"
  Hash_sha256sha256 :: "string \<Rightarrow> string"
  Signature_fromString :: "string \<Rightarrow> string option"
  ECDSA_verify :: "string \<Rightarrow> string \<Rightarrow> string \<Rightarrow> bool option"
  sjcl_base64_toBits :: "string \<Rightarrow> string option"
  sjcl_decrypt :: "string \<Rightarrow> string option \<Rightarrow> string option"
  sjcl_sha256_hex :: "string \<Rightarrow> string"
  Transaction_from_multisig :: "tx \<Rightarrow> utxo \<Rightarrow> string list \<Rightarrow> nat \<Rightarrow> tx option"
  Transaction_from :: "tx \<Rightarrow> utxo list \<Rightarrow> tx option"
  Transaction_to :: "tx \<Rightarrow> string \<Rightarrow> int \<Rightarrow> tx option"
  Transaction_addOutput :: "tx \<Rightarrow> string \<Rightarrow> int \<Rightarrow> tx option"
  Transaction_fee :: "tx \<Rightarrow> int option \<Rightarrow> tx option"
  Transaction_change :: "tx \<Rightarrow> string option \<Rightarrow> tx option"
  Transaction_uncheckedSerialize :: "tx \<Rightarrow> string"
  parseInt :: "jsval \<Rightarrow> double"

text \<open>\<^verbatim>\<open>parseInt(v) >= 3\<close>.\<close>

definition version_ge_3 :: "libraries \<Rightarrow> jsval \<Rightarrow> bool" where
  "version_ge_3 L v = double_ge (parseInt L v) (Finite 3)"

section \<open>Utils\<close>

text \<open>
  \<^verbatim>\<open>Utils.decryptMessage\<close>: both the decoding of the key and the decryption run inside
  the \<^verbatim>\<open>try\<close>; the handler returns the first argument.
\<close>

definition decryptMessage :: "libraries \<Rightarrow> string option \<Rightarrow> string \<Rightarrow> error + string option" where
  "decryptMessage L cyphertextJson encryptingKey =
     try_catch
       (seq (lib (sjcl_base64_toBits L encryptingKey)) (\<lambda>key.
        seq (lib (sjcl_decrypt L key cyphertextJson)) (\<lambda>plain.
        Inr (Some plain))))
       (\<lambda>ex. Inr cyphertextJson)"

text \<open>\<^verbatim>\<open>Utils.hashMessage\<close>: the double hash of the text, its bytes reversed.\<close>

definition hashMessage :: "libraries \<Rightarrow> string \<Rightarrow> error + string" where
  "hashMessage L text =
     seq (checkArgument (text \<noteq> [])) (\<lambda>_.
     Inr (rev (Hash_sha256sha256 L text)))"

text \<open>
  \<^verbatim>\<open>Utils.verifyMessage\<close>: the two argument checks come first, then the test of the
  signature; the public key is parsed and the text hashed before the \<^verbatim>\<open>try\<close>, which
  covers the parsing of the signature and the ECDSA verification only.
\<close>

definition verifyMessage :: "libraries \<Rightarrow> string \<Rightarrow> string option \<Rightarrow> string \<Rightarrow> error + bool" where
  "verifyMessage L text signature pubKey =
     seq (checkArgument (text \<noteq> [])) (\<lambda>_.
     seq (checkArgument (pubKey \<noteq> [])) (\<lambda>_.
     case signature of
       None \<Rightarrow> Inr False
     | Some s \<Rightarrow>
         if s = [] then Inr False
         else
           seq (lib (PublicKey_new L pubKey)) (\<lambda>pub.
           seq (hashMessage L text) (\<lambda>hash.
           try_catch
             (seq (lib (Signature_fromString L s)) (\<lambda>sig.
              seq (lib (ECDSA_verify L hash sig pub)) (\<lambda>verified.
              Inr verified)))
             (\<lambda>e. Inr False)))))"

definition getCopayerHash :: "string option \<Rightarrow> string option \<Rightarrow> string option \<Rightarrow> string" where
  "getCopayerHash name xPubKey requestPubKey =
     js_str name @ ''|'' @ js_str xPubKey @ ''|'' @ js_str requestPubKey"

text \<open>
  \<^verbatim>\<open>Utils.deriveAddress\<close>. The \<^verbatim>\<open>switch\<close> has no default: with a script type that is
  neither of its two cases \<^verbatim>\<open>bitcoreAddress\<close> stays undefined and
  \<^verbatim>\<open>bitcoreAddress.toString()\<close> is a TypeError.
\<close>

definition deriveAddress ::
  "libraries \<Rightarrow> constants \<Rightarrow> string option \<Rightarrow> ring_entry list \<Rightarrow> string \<Rightarrow> nat \<Rightarrow> string
     \<Rightarrow> error + derived_address" where
  "deriveAddress L C scriptType publicKeyRing path m network =
     seq (checkArgument (scriptType \<in> set (SCRIPT_TYPES_values C))) (\<lambda>_.
     seq (mapM (\<lambda>item. lib (HDPublicKey_deriveChild L (r_xPubKey item) path)) publicKeyRing)
       (\<lambda>publicKeys.
     seq (if scriptType = Some (SCRIPT_TYPES_P2SH C) then
            lib (Address_createMultisig L publicKeys m network)
          else if scriptType = Some (SCRIPT_TYPES_P2PKH C) then
            seq (checkState (length publicKeys = 1)) (\<lambda>_.
            lib (Address_fromPublicKey L (hd publicKeys) network))
          else Inl TypeError)
       (\<lambda>bitcoreAddress.
     Inr \<lparr> d_address = bitcoreAddress, d_path = path, d_publicKeys = publicKeys \<rparr>)))"

definition xPubToCopayerId :: "libraries \<Rightarrow> string \<Rightarrow> string" where
  "xPubToCopayerId L xpub = sjcl_sha256_hex L xpub"

definition verifyRequestPubKey ::
  "libraries \<Rightarrow> constants \<Rightarrow> string \<Rightarrow> string option \<Rightarrow> string \<Rightarrow> error + bool" where
  "verifyRequestPubKey L C requestPubKey signature xPubKey =
     seq (lib (HDPublicKey_deriveChild L xPubKey (PATHS_REQUEST_KEY_AUTH C))) (\<lambda>pub.
     verifyMessage L requestPubKey signature pub)"

section \<open>Verifier\<close>

text \<open>
  \<^verbatim>\<open>Verifier.checkAddress\<close>: \<^verbatim>\<open>local.address == address.address\<close> compares a string with
  a string or \<^verbatim>\<open>undefined\<close>; the second conjunct is the one-sided
  \<^verbatim>\<open>_.difference(local.publicKeys, address.publicKeys).length === 0\<close>.
\<close>

definition checkAddress :: "libraries \<Rightarrow> constants \<Rightarrow> credentials \<Rightarrow> address \<Rightarrow> error + bool" where
  "checkAddress L C credentials address =
     seq (checkState (isComplete credentials)) (\<lambda>_.
     seq (deriveAddress L C (js_or (a_type address) (c_addressType credentials))
            (c_publicKeyRing credentials) (a_path address) (c_m credentials)
            (c_network credentials)) (\<lambda>local.
     Inr (Some (d_address local) = a_address address \<and>
          length (difference (d_publicKeys local) (a_publicKeys address)) = 0)))"

section \<open>Transaction proposals\<close>

record txp =
  p_version :: jsval
  p_addressType :: "string option"
  p_inputs :: "utxo list"
  p_requiredSignatures :: nat
  p_toAddress :: "string option"
  p_amount :: "int option"
  p_outputs :: "txp_output list option"
  p_fee :: "int option"
  p_feePerKb :: "int option"
  p_changeAddress :: "address option"
  p_outputOrder :: "int list"
  p_creatorId :: "string option"
  p_proposalSignature :: "string option"
  p_proposalSignaturePubKey :: "string option"
  p_proposalSignaturePubKeySig :: "string option"
  p_message :: "string option"
  p_payProUrl :: "string option"
  p_customData :: "string option"

text \<open>Truthiness of a numeric property: \<^verbatim>\<open>undefined\<close> and \<open>0\<close> are falsy.\<close>

definition truthy_num :: "int option \<Rightarrow> bool" where
  "truthy_num v = (case v of None \<Rightarrow> False | Some k \<Rightarrow> k \<noteq> 0)"

definition num_val :: "int option \<Rightarrow> int" where
  "num_val v = (case v of None \<Rightarrow> 0 | Some k \<Rightarrow> k)"

subsection \<open>Defaults\<close>

definition COIN :: int where
  "COIN = 100000000"

definition MAX_TX_FEE :: int where
  "MAX_TX_FEE = 1 * COIN"

subsection \<open>\<^verbatim>\<open>Utils.buildTx\<close>\<close>

text \<open>
  Lines 195 to 230 of Utils: the new transaction, the check of the address type, the
  inputs, the outputs, the fee and the change address. Every \<^verbatim>\<open>t.from\<close>, \<^verbatim>\<open>t.to\<close>,
  \<^verbatim>\<open>t.addOutput\<close>, \<^verbatim>\<open>t.fee\<close> and \<^verbatim>\<open>t.change\<close> is a call into Bitcore.
\<close>

definition new_Transaction :: tx where
  "new_Transaction = \<lparr> tx_inputs = [], tx_outputs = [], tx_fee = None, tx_changeScript = None \<rparr>"

definition addInputs :: "libraries \<Rightarrow> constants \<Rightarrow> txp \<Rightarrow> tx \<Rightarrow> error + tx" where
  "addInputs L C txp t =
     (if p_addressType txp = Some (SCRIPT_TYPES_P2SH C) then
        foldM (\<lambda>t i. lib (Transaction_from_multisig L t i (i_publicKeys i) (p_requiredSignatures txp)))
          t (p_inputs txp)
      else if p_addressType txp = Some (SCRIPT_TYPES_P2PKH C) then
        lib (Transaction_from L t (p_inputs txp))
      else Inr t)"

definition addOutput_each :: "libraries \<Rightarrow> tx \<Rightarrow> txp_output \<Rightarrow> error + tx" where
  "addOutput_each L t o' =
     seq (checkState (truthy (o_script o') \<or> truthy (o_toAddress o'))) (\<lambda>_.
     if truthy (o_script o') then
       lib (Transaction_addOutput L t (js_str (o_script o')) (o_amount o'))
     else
       lib (Transaction_to L t (js_str (o_toAddress o')) (o_amount o')))"

definition addOutputs :: "libraries \<Rightarrow> txp \<Rightarrow> tx \<Rightarrow> error + tx" where
  "addOutputs L txp t =
     (if truthy (p_toAddress txp) \<and> truthy_num (p_amount txp) \<and> p_outputs txp = None then
        lib (Transaction_to L t (js_str (p_toAddress txp)) (num_val (p_amount txp)))
      else
        (case p_outputs txp of
           Some outputs \<Rightarrow> foldM (addOutput_each L) t outputs
         | None \<Rightarrow> Inr t))"

definition assembleTx :: "libraries \<Rightarrow> constants \<Rightarrow> txp \<Rightarrow> error + tx" where
  "assembleTx L C txp =
     seq (checkState (p_addressType txp \<in> set (SCRIPT_TYPES_values C))) (\<lambda>_.
     seq (addInputs L C txp new_Transaction) (\<lambda>t.
     seq (addOutputs L txp t) (\<lambda>t.
     seq (lib (Transaction_fee L t (p_fee txp))) (\<lambda>t.
     (case p_changeAddress txp of
        None \<Rightarrow> Inr t
      | Some changeAddress \<Rightarrow> lib (Transaction_change L t (a_address changeAddress)))))))"

text \<open>
  \<^verbatim>\<open>outputs[i]\<close> on an array: \<^verbatim>\<open>undefined\<close> when \<open>i\<close> is not an index of it.
\<close>

definition js_nth :: "'a list \<Rightarrow> int \<Rightarrow> 'a option" where
  "js_nth xs i = (if 0 \<le> i \<and> nat i < length xs then Some (xs ! nat i) else None)"

text \<open>
  Bitcore's \<^verbatim>\<open>sortOutputs(sortingFunction)\<close> replaces the list of outputs by what the
  sorting function returns of it, and throws (invalid sorting) unless the new list has the
  length of the old one and holds every output object of the old one. Objects are
  compared by identity: the outputs are tagged with their positions.
\<close>

definition Transaction_sortOutputs ::
  "((nat \<times> txout) list \<Rightarrow> (nat \<times> txout) option list) \<Rightarrow> tx \<Rightarrow> error + tx" where
  "Transaction_sortOutputs sortingFunction t =
     (let outputs = enumerate 0 (tx_outputs t);
          outs = sortingFunction outputs
      in if length outputs \<noteq> length outs \<or> length (difference (map Some outputs) outs) \<noteq> 0
         then Inl LibraryError
         else Inr (t\<lparr> tx_outputs := List.map_filter (map_option snd) outs \<rparr>))"

text \<open>Lines 232 to 243: the outputs are put in the order the proposal gives.\<close>

definition filteredOrder :: "txp \<Rightarrow> tx \<Rightarrow> int list" where
  "filteredOrder txp t =
     filter (\<lambda>order. \<not> (order \<ge> int (length (tx_outputs t)))) (p_outputOrder txp)"

definition shuffleOutputs :: "txp \<Rightarrow> tx \<Rightarrow> error + tx" where
  "shuffleOutputs txp t =
     (if length (tx_outputs t) > 1 then
        (let outputOrder = filteredOrder txp t in
         seq (checkState (length (tx_outputs t) = length outputOrder)) (\<lambda>_.
         Transaction_sortOutputs (\<lambda>outputs. map (\<lambda>i. js_nth outputs i) outputOrder) t))
      else Inr t)"

text \<open>
  Lines 245 to 254: the totals, by \<^verbatim>\<open>_.reduce\<close> from \<open>0\<close> with the addition of numbers
  \<^verbatim>\<open>+i.satoshis + memo\<close>, and the two checks of their difference.
\<close>

definition totalInputs :: "txp \<Rightarrow> double" where
  "totalInputs txp =
     foldl (\<lambda>memo i. double_plus (to_double (i_satoshis i)) memo) (Finite 0) (p_inputs txp)"

definition totalOutputs :: "tx \<Rightarrow> double" where
  "totalOutputs t =
     foldl (\<lambda>memo o'. double_plus (to_double (out_satoshis o')) memo) (Finite 0) (tx_outputs t)"

text \<open>\<^verbatim>\<open>totalInputs - totalOutputs\<close>.\<close>

definition feeDifference :: "txp \<Rightarrow> tx \<Rightarrow> double" where
  "feeDifference txp t = double_minus (totalInputs txp) (totalOutputs t)"

definition checkFee :: "txp \<Rightarrow> tx \<Rightarrow> error + tx" where
  "checkFee txp t =
     seq (checkState (double_ge (feeDifference txp t) (Finite 0))) (\<lambda>_.
     seq (checkState (double_le (feeDifference txp t) (Finite MAX_TX_FEE))) (\<lambda>_.
     Inr t))"

definition buildTx :: "libraries \<Rightarrow> constants \<Rightarrow> txp \<Rightarrow> error + tx" where
  "buildTx L C txp =
     seq (assembleTx L C txp) (\<lambda>t.
     seq (shuffleOutputs txp t) (\<lambda>t.
     checkFee txp t))"

section \<open>Verifier, continued\<close>

subsection \<open>\<^verbatim>\<open>Verifier.checkCopayers\<close>\<close>

record copayer =
  cp_name :: "string option"
  cp_encryptedName :: "string option"
  cp_xPubKey :: "string option"
  cp_requestPubKey :: "string option"
  cp_signature :: "string option"

text \<open>
  The counter \<^verbatim>\<open>uniq\<close> is an empty array used as a table of properties. \<^verbatim>\<open>uniq[k]++\<close>
  reads the property, converts it to a number (\<^verbatim>\<open>undefined\<close> becomes \<^verbatim>\<open>NaN\<close>), stores
  that number plus one (\<^verbatim>\<open>NaN + 1\<close> is \<^verbatim>\<open>NaN\<close>) and has the number read as its value.
\<close>

datatype jsnumber = NaN | Number int

definition to_number :: "jsnumber option \<Rightarrow> jsnumber" where
  "to_number v = (case v of None \<Rightarrow> NaN | Some k \<Rightarrow> k)"

definition plus_one :: "jsnumber \<Rightarrow> jsnumber" where
  "plus_one v = (case v of NaN \<Rightarrow> NaN | Number k \<Rightarrow> Number (k + 1))"

definition truthy_number :: "jsnumber \<Rightarrow> bool" where
  "truthy_number v = (case v of NaN \<Rightarrow> False | Number k \<Rightarrow> k \<noteq> 0)"

definition post_increment ::
  "(string \<rightharpoonup> jsnumber) \<Rightarrow> string \<Rightarrow> jsnumber \<times> (string \<rightharpoonup> jsnumber)" where
  "post_increment obj key = (let old = to_number (obj key) in (old, obj(key \<mapsto> plus_one old)))"

text \<open>
  The key of the counter is \<^verbatim>\<open>copayers.xPubKey\<close>, a property of the array of copayers
  (not of the copayer of the iteration): an array has no such property, the value is
  \<^verbatim>\<open>undefined\<close> and the property key is the string \<^verbatim>\<open>"undefined"\<close>.
\<close>

definition copayers_xPubKey :: "copayer list \<Rightarrow> string option" where
  "copayers_xPubKey copayers = None"

definition property_key :: "string option \<Rightarrow> string" where
  "property_key v = (case v of None \<Rightarrow> ''undefined'' | Some s \<Rightarrow> s)"

text \<open>The body of the \<^verbatim>\<open>_.each\<close>; the state is the counter and the flag \<^verbatim>\<open>error\<close>.\<close>

definition checkCopayers_each ::
  "libraries \<Rightarrow> string \<Rightarrow> copayer list \<Rightarrow> (string \<rightharpoonup> jsnumber) \<times> bool \<Rightarrow> copayer
     \<Rightarrow> error + (string \<rightharpoonup> jsnumber) \<times> bool" where
  "checkCopayers_each L walletPubKey copayers st copayer =
     (case st of (uniq, error) \<Rightarrow>
        if error then Inr (uniq, error)
        else
          (case post_increment uniq (property_key (copayers_xPubKey copayers)) of
             (old, uniq) \<Rightarrow>
               (let error = (if truthy_number old then True else error) in
                if \<not> truthy (js_or (cp_encryptedName copayer) (cp_name copayer))
                   \<or> \<not> truthy (cp_xPubKey copayer) \<or> \<not> truthy (cp_requestPubKey copayer)
                   \<or> \<not> truthy (cp_signature copayer)
                then Inr (uniq, True)
                else
                  (let hash = getCopayerHash (js_or (cp_encryptedName copayer) (cp_name copayer))
                                (cp_xPubKey copayer) (cp_requestPubKey copayer) in
                   seq (verifyMessage L hash (cp_signature copayer) walletPubKey) (\<lambda>verified.
                   if \<not> verified then Inr (uniq, True) else Inr (uniq, error))))))"

definition checkCopayers :: "libraries \<Rightarrow> credentials \<Rightarrow> copayer list \<Rightarrow> error + bool" where
  "checkCopayers L credentials copayers =
     seq (checkState (truthy (c_walletPrivKey credentials))) (\<lambda>_.
     seq (lib (PrivateKey_toPublicKey L (js_str (c_walletPrivKey credentials)))) (\<lambda>walletPubKey.
     if length copayers \<noteq> c_n credentials then Inr False
     else
       seq (foldM (checkCopayers_each L walletPubKey copayers) (Map.empty, False) copayers) (\<lambda>st.
       if snd st then Inr False
       else if c_xPubKey credentials \<notin> set (map cp_xPubKey copayers) then Inr False
       else Inr True)))"

subsection \<open>\<^verbatim>\<open>Verifier.checkProposalCreation\<close>\<close>

record proposal_args =
  g_outputs :: "txp_output list"
  g_changeAddress :: "string option"
  g_feePerKb :: "int option"
  g_payProUrl :: "string option"
  g_message :: "string option"
  g_customData :: "string option"

definition strEqual :: "string option \<Rightarrow> string option \<Rightarrow> bool" where
  "strEqual str1 str2 = ((\<not> truthy str1 \<and> \<not> truthy str2) \<or> str1 = str2)"

text \<open>
  The \<^verbatim>\<open>for\<close> loop over the outputs; \<open>Inr False\<close> is its \<^verbatim>\<open>return false\<close>. The
  \<^verbatim>\<open>try\<close> holds the call of \<^verbatim>\<open>decryptMessage\<close> alone, and its handler returns false.
\<close>

fun checkOutputs :: "libraries \<Rightarrow> string \<Rightarrow> (txp_output \<times> txp_output) list \<Rightarrow> error + bool" where
  "checkOutputs L encryptingKey [] = Inr True"
| "checkOutputs L encryptingKey ((o1, o2) # rest) =
     (if \<not> strEqual (o_toAddress o1) (o_toAddress o2) then Inr False
      else if \<not> strEqual (o_script o1) (o_script o2) then Inr False
      else if to_double (o_amount o1) \<noteq> to_double (o_amount o2) then Inr False
      else
        (case decryptMessage L (o_message o2) encryptingKey of
           Inl e \<Rightarrow> Inr False
         | Inr decryptedMessage \<Rightarrow>
             if \<not> strEqual (o_message o1) decryptedMessage then Inr False
             else checkOutputs L encryptingKey rest))"

definition checkProposalCreation ::
  "libraries \<Rightarrow> proposal_args \<Rightarrow> txp \<Rightarrow> string \<Rightarrow> error + bool" where
  "checkProposalCreation L args txp encryptingKey =
     (case p_outputs txp of
        None \<Rightarrow> Inl TypeError
      | Some outputs \<Rightarrow>
          if length outputs \<noteq> length (g_outputs args) then Inr False
          else
            seq (checkOutputs L encryptingKey (zip outputs (g_outputs args))) (\<lambda>same.
            if \<not> same then Inr False
            else
              (let changeAddress =
                     (case p_changeAddress txp of None \<Rightarrow> None | Some a \<Rightarrow> a_address a) in
               if truthy (g_changeAddress args) \<and> \<not> strEqual changeAddress (g_changeAddress args)
               then Inr False
               else if g_feePerKb args \<noteq> None \<and> \<not> same_number (p_feePerKb txp) (g_feePerKb args)
               then Inr False
               else if \<not> strEqual (p_payProUrl txp) (g_payProUrl args) then Inr False
               else
                 (case decryptMessage L (g_message args) encryptingKey of
                    Inl e \<Rightarrow> Inr False
                  | Inr decryptedMessage \<Rightarrow>
                      if \<not> strEqual (p_message txp) decryptedMessage then Inr False
                      else if truthy (g_customData args) \<and> p_customData txp \<noteq> g_customData args
                      then Inr False
                      else Inr True))))"

subsection \<open>\<^verbatim>\<open>Verifier.checkTxProposalSignature\<close>\<close>

text \<open>
  Lines 170 to 197, once \<^verbatim>\<open>creatorSigningPubKey\<close> is assigned. A change address that is
  \<^verbatim>\<open>undefined\<close> makes \<^verbatim>\<open>checkAddress\<close> read \<^verbatim>\<open>address.type\<close> of \<^verbatim>\<open>undefined\<close>, after
  its check of the credentials.
\<close>

definition checkWithSigningPubKey ::
  "libraries \<Rightarrow> constants \<Rightarrow> credentials \<Rightarrow> txp \<Rightarrow> string option \<Rightarrow> error + bool" where
  "checkWithSigningPubKey L C credentials txp creatorSigningPubKey =
     (if \<not> truthy creatorSigningPubKey then Inr False
      else
        seq (if version_ge_3 L (p_version txp) then
               seq (buildTx L C txp) (\<lambda>t. Inr (Transaction_uncheckedSerialize L t))
             else Inl TxpNotSupported) (\<lambda>hash.
        seq (verifyMessage L hash (p_proposalSignature txp) (js_str creatorSigningPubKey))
          (\<lambda>verified.
        if \<not> verified then Inr False
        else
          seq (case p_changeAddress txp of
                 None \<Rightarrow> seq (checkState (isComplete credentials)) (\<lambda>_. Inl TypeError)
               | Some changeAddress \<Rightarrow> checkAddress L C credentials changeAddress) (\<lambda>ok.
          if \<not> ok then Inr False else Inr True))))"

definition findCreatorKeys :: "libraries \<Rightarrow> credentials \<Rightarrow> txp \<Rightarrow> ring_entry option" where
  "findCreatorKeys L credentials txp =
     find (\<lambda>item. Some (xPubToCopayerId L (r_xPubKey item)) = p_creatorId txp)
       (c_publicKeyRing credentials)"

definition checkTxProposalSignature ::
  "libraries \<Rightarrow> constants \<Rightarrow> credentials \<Rightarrow> txp \<Rightarrow> error + bool" where
  "checkTxProposalSignature L C credentials txp =
     seq (checkArgument (truthy (p_creatorId txp))) (\<lambda>_.
     seq (checkState (isComplete credentials)) (\<lambda>_.
     case findCreatorKeys L credentials txp of
       None \<Rightarrow> Inr False
     | Some creatorKeys \<Rightarrow>
         if truthy (p_proposalSignaturePubKey txp) then
           seq (verifyRequestPubKey L C (js_str (p_proposalSignaturePubKey txp))
                  (p_proposalSignaturePubKeySig txp) (r_xPubKey creatorKeys)) (\<lambda>ok.
           if \<not> ok then Inr False
           else checkWithSigningPubKey L C credentials txp (p_proposalSignaturePubKey txp))
         else checkWithSigningPubKey L C credentials txp (r_requestPubKey creatorKeys)))"

subsection \<open>\<^verbatim>\<open>Verifier.checkPaypro\<close> and \<^verbatim>\<open>Verifier.checkTxProposal\<close>\<close>

record paypro =
  pp_toAddress :: "string option"
  pp_amount :: "int option"

text \<open>
  In both branches the amount is \<^verbatim>\<open>txp.amount\<close>. \<^verbatim>\<open>txp.outputs[0].toAddress\<close> is a
  TypeError when the proposal has no list of outputs or an empty one.
\<close>

definition checkPaypro :: "libraries \<Rightarrow> txp \<Rightarrow> paypro \<Rightarrow> error + bool" where
  "checkPaypro L txp payproOpts =
     seq (if version_ge_3 L (p_version txp) then
            (case p_outputs txp of
               Some (o' # rest) \<Rightarrow> Inr (o_toAddress o', p_amount txp)
             | _ \<Rightarrow> Inl TypeError)
          else Inr (p_toAddress txp, p_amount txp)) (\<lambda>(toAddress, amount).
     Inr (toAddress = pp_toAddress payproOpts \<and> same_number amount (pp_amount payproOpts)))"

text \<open>The options are reduced to their one property read, \<^verbatim>\<open>opts.paypro\<close>.\<close>

definition checkTxProposal ::
  "libraries \<Rightarrow> constants \<Rightarrow> credentials \<Rightarrow> txp \<Rightarrow> paypro option \<Rightarrow> error + bool" where
  "checkTxProposal L C credentials txp opts_paypro =
     seq (checkTxProposalSignature L C credentials txp) (\<lambda>ok.
     if \<not> ok then Inr False
     else
       (case opts_paypro of
          None \<Rightarrow> Inr True
        | Some payproOpts \<Rightarrow>
            seq (checkPaypro L txp payproOpts) (\<lambda>ok. if \<not> ok then Inr False else Inr True)))"

section \<open>\<^verbatim>\<open>Utils.convertTxpSatoshiToCoinProtocol\<close>\<close>













section \<open>A concrete instance of the libraries\<close>

text \<open>
  To evaluate the model on concrete inputs the libraries need concrete behaviour. This
  instance is a stand-in with the shape of the real one: a child key is the extended key
  followed by the path, an address is built from its keys, a signature verifies when it
  is the string \<open>sig(pub,hash)\<close> for the public key and the hash, a ciphertext is an
  opening brace followed by the plaintext, and a transaction collects its inputs and
  outputs in order. The key \<open>bad\<close> and the signature \<open>bad\<close> do not parse. Setting the
  change address adds no output: in every proposal below the inputs leave nothing for a
  change output once the outputs and the fee are paid, or there is no change address.

  The \<^verbatim>\<open>parseInt\<close> of the instance reads a number below \<open>10 ^ 21\<close> in magnitude as the
  number itself and a string of characters below \<open>U+0100\<close> by the rules of the language:
  leading white space (the no-break space included), a sign, the prefix \<^verbatim>\<open>0x\<close>, the
  longest prefix of digits; all else is \<^verbatim>\<open>NaN\<close> in this instance.
\<close>

definition is_space :: "char \<Rightarrow> bool" where
  "is_space c = (c \<in> set [CHR '' '', CHR 0x09, CHR 0x0A, CHR 0x0B, CHR 0x0C, CHR 0x0D, CHR 0xA0])"

definition digit_of :: "char \<Rightarrow> nat option" where
  "digit_of c =
     (let k = of_char c :: nat in
      if 48 \<le> k \<and> k \<le> 57 then Some (k - 48)
      else if 97 \<le> k \<and> k \<le> 122 then Some (k - 87)
      else if 65 \<le> k \<and> k \<le> 90 then Some (k - 55)
      else None)"

definition is_digit :: "nat \<Rightarrow> char \<Rightarrow> bool" where
  "is_digit radix c = (case digit_of c of None \<Rightarrow> False | Some d \<Rightarrow> d < radix)"

definition digits_value :: "nat \<Rightarrow> string \<Rightarrow> nat" where
  "digits_value radix ds = foldl (\<lambda>acc c. acc * radix + (case digit_of c of None \<Rightarrow> 0 | Some d \<Rightarrow> d)) 0 ds"

definition parse_digits :: "nat \<Rightarrow> string \<Rightarrow> nat option" where
  "parse_digits radix s =
     (let ds = takeWhile (is_digit radix) s
      in if ds = [] then None else Some (digits_value radix ds))"

definition parse_unsigned :: "string \<Rightarrow> nat option" where
  "parse_unsigned s =
     (case s of
        c1 # c2 # rest \<Rightarrow>
          if c1 = CHR ''0'' \<and> (c2 = CHR ''x'' \<or> c2 = CHR ''X'') then parse_digits 16 rest
          else parse_digits 10 s
      | _ \<Rightarrow> parse_digits 10 s)"

definition parseInt_string :: "string \<Rightarrow> int option" where
  "parseInt_string s =
     (case dropWhile is_space s of
        [] \<Rightarrow> None
      | c # rest \<Rightarrow>
          if c = CHR ''-'' then map_option (\<lambda>k. - int k) (parse_unsigned rest)
          else if c = CHR ''+'' then map_option int (parse_unsigned rest)
          else map_option int (parse_unsigned (c # rest)))"

definition stub_parseInt :: "jsval \<Rightarrow> double" where
  "stub_parseInt v =
     (case v of
        JUndefined \<Rightarrow> NotANumber
      | JNum k \<Rightarrow> if \<bar>k\<bar> < 10 ^ 21 then to_double k else NotANumber
      | JStr s \<Rightarrow> (case parseInt_string s of None \<Rightarrow> NotANumber | Some k \<Rightarrow> to_double k))"

definition stub_sign :: "string \<Rightarrow> string \<Rightarrow> string" where
  "stub_sign pub hash = ''sig('' @ pub @ '','' @ hash @ '')''"

definition stub :: libraries where
  "stub = \<lparr>
     HDPublicKey_deriveChild = (\<lambda>xpub path. if xpub = ''bad'' then None else Some (xpub @ ''/'' @ path)),
     Address_createMultisig = (\<lambda>keys m network. Some (''3'' @ concat keys)),
     Address_fromPublicKey = (\<lambda>key network. Some (''1'' @ key)),
     PrivateKey_toPublicKey = (\<lambda>priv. if priv = ''bad'' then None else Some (''pub-'' @ priv)),
     PublicKey_new = (\<lambda>key. if key = ''bad'' then None else Some key),
     Hash_sha256sha256 = (\<lambda>text. text),
     Signature_fromString = (\<lambda>s. if s = ''bad'' then None else Some s),
     ECDSA_verify = (\<lambda>hash sig pub. Some (sig = stub_sign pub hash)),
     sjcl_base64_toBits = (\<lambda>key. Some key),
     sjcl_decrypt = (\<lambda>key c. case c of Some (x # plain) \<Rightarrow> if x = CHR ''{'' then Some plain else None
                                | _ \<Rightarrow> None),
     sjcl_sha256_hex = (\<lambda>xpub. ''id-'' @ xpub),
     Transaction_from_multisig = (\<lambda>t i keys m. Some (t\<lparr> tx_inputs := tx_inputs t @ [i] \<rparr>)),
     Transaction_from = (\<lambda>t is. Some (t\<lparr> tx_inputs := tx_inputs t @ is \<rparr>)),
     Transaction_to = (\<lambda>t a v. Some (t\<lparr> tx_outputs := tx_outputs t @ [\<lparr> out_script = a, out_satoshis = v \<rparr>] \<rparr>)),
     Transaction_addOutput = (\<lambda>t s v. Some (t\<lparr> tx_outputs := tx_outputs t @ [\<lparr> out_script = s, out_satoshis = v \<rparr>] \<rparr>)),
     Transaction_fee = (\<lambda>t f. Some (t\<lparr> tx_fee := f \<rparr>)),
     Transaction_change = (\<lambda>t a. Some (t\<lparr> tx_changeScript := a \<rparr>)),
     Transaction_uncheckedSerialize = (\<lambda>t. concat (map out_script (tx_outputs t))),
     parseInt = stub_parseInt
   \<rparr>"


definition stub_constants :: constants where
  "stub_constants = \<lparr> SCRIPT_TYPES_P2SH = ''P2SH'', SCRIPT_TYPES_P2PKH = ''P2PKH'',
                       PATHS_REQUEST_KEY_AUTH = ''m/1/0'' \<rparr>"

section \<open>Predicates of the statements\<close>

text \<open>
  Lines 156 to 169 of the verifier establish the key that must have signed the proposal:
  the proposal's own key when it carries one and the creator's extended key vouches for
  it, the creator's request key otherwise; the key must be non-empty.
\<close>

definition signerEstablished :: "libraries \<Rightarrow> constants \<Rightarrow> txp \<Rightarrow> ring_entry \<Rightarrow> bool" where
  "signerEstablished L C txp creatorKeys =
     (if truthy (p_proposalSignaturePubKey txp) then
        verifyRequestPubKey L C (js_str (p_proposalSignaturePubKey txp))
          (p_proposalSignaturePubKeySig txp) (r_xPubKey creatorKeys) = Inr True
      else truthy (r_requestPubKey creatorKeys))"

text \<open>The decryption inside \<^verbatim>\<open>decryptMessage\<close> throws: the key or the ciphertext is
  rejected by sjcl.\<close>

definition decryptionFails :: "libraries \<Rightarrow> string option \<Rightarrow> string \<Rightarrow> bool" where
  "decryptionFails L cyphertextJson encryptingKey =
     (case sjcl_base64_toBits L encryptingKey of
        None \<Rightarrow> True
      | Some key \<Rightarrow> sjcl_decrypt L key cyphertextJson = None)"

text \<open>A roster entry has its four fields and its signature verifies under the wallet's
  public key: the second test of the loop of \<^verbatim>\<open>checkCopayers\<close> passes.\<close>

definition copayerSigned :: "libraries \<Rightarrow> string \<Rightarrow> copayer \<Rightarrow> bool" where
  "copayerSigned L walletPubKey copayer =
     (truthy (js_or (cp_encryptedName copayer) (cp_name copayer)) \<and> truthy (cp_xPubKey copayer)
      \<and> truthy (cp_requestPubKey copayer) \<and> truthy (cp_signature copayer)
      \<and> verifyMessage L (getCopayerHash (js_or (cp_encryptedName copayer) (cp_name copayer))
            (cp_xPubKey copayer) (cp_requestPubKey copayer)) (cp_signature copayer) walletPubKey = Inr True)"

text \<open>
  The amounts of the inputs of a proposal and of the outputs of a transaction are small
  enough for every sum and difference of them to be exact in double precision: their
  magnitudes add up to less than \<open>2 ^ 53\<close>.
\<close>

definition exactSums :: "txp \<Rightarrow> tx \<Rightarrow> bool" where
  "exactSums txp t =
     (sum_list (map (\<lambda>i. \<bar>i_satoshis i\<bar>) (p_inputs txp))
        + sum_list (map (\<lambda>o'. \<bar>out_satoshis o'\<bar>) (tx_outputs t)) < 2 ^ 53)"

text \<open>Every property of the counter holds \<^verbatim>\<open>NaN\<close> or is absent.\<close>

definition nan_only :: "(string \<rightharpoonup> jsnumber) \<Rightarrow> bool" where
  "nan_only uniq = (\<forall>k. to_number (uniq k) = NaN)"

section \<open>Concrete inputs\<close>

text \<open>A single-signature wallet of one copayer, one of its addresses, and a proposal that
  spends 1 coin to two outputs with a fee of 10000.\<close>

definition ex_credentials :: credentials where
  "ex_credentials = \<lparr> c_network = ''livenet'', c_addressType = Some ''P2PKH'', c_m = 1, c_n = 1,
     c_publicKeyRing = [\<lparr> r_xPubKey = ''xpubA'', r_requestPubKey = Some ''reqA'' \<rparr>],
     c_walletPrivKey = Some ''w'', c_xPubKey = Some ''xpubA'' \<rparr>"

definition ex_address :: address where
  "ex_address = \<lparr> a_address = Some ''1xpubA/m/0/1'', a_type = Some ''P2PKH'', a_path = ''m/0/1'',
     a_publicKeys = [''xpubA/m/0/1''] \<rparr>"

definition ex_txp :: txp where
  "ex_txp = \<lparr> p_version = JNum 3, p_addressType = Some ''P2PKH'',
     p_inputs = [\<lparr> i_txid = ''aa'', i_satoshis = 100000000, i_publicKeys = [] \<rparr>],
     p_requiredSignatures = 1, p_toAddress = None, p_amount = Some 99990000,
     p_outputs = Some [\<lparr> o_toAddress = Some ''addr1'', o_script = None, o_amount = 60000000, o_message = None \<rparr>,
                       \<lparr> o_toAddress = Some ''addr2'', o_script = None, o_amount = 39990000, o_message = None \<rparr>],
     p_fee = Some 10000, p_feePerKb = None, p_changeAddress = Some ex_address, p_outputOrder = [1, 0],
     p_creatorId = Some ''id-xpubA'', p_proposalSignature = None, p_proposalSignaturePubKey = None,
     p_proposalSignaturePubKeySig = None, p_message = None, p_payProUrl = None, p_customData = None \<rparr>"

text \<open>The transaction of \<open>ex_txp\<close> before and after its outputs are put in order.\<close>

definition ex_tx0 :: tx where
  "ex_tx0 = \<lparr> tx_inputs = [\<lparr> i_txid = ''aa'', i_satoshis = 100000000, i_publicKeys = [] \<rparr>],
     tx_outputs = [\<lparr> out_script = ''addr1'', out_satoshis = 60000000 \<rparr>,
                   \<lparr> out_script = ''addr2'', out_satoshis = 39990000 \<rparr>],
     tx_fee = Some 10000, tx_changeScript = Some ''1xpubA/m/0/1'' \<rparr>"

definition ex_tx :: tx where
  "ex_tx = ex_tx0\<lparr> tx_outputs := [\<lparr> out_script = ''addr2'', out_satoshis = 39990000 \<rparr>,
                                   \<lparr> out_script = ''addr1'', out_satoshis = 60000000 \<rparr>] \<rparr>"

text \<open>An output that pays more than the inputs of \<open>ex_txp\<close> hold, and the transaction of
  the proposal with that output alone.\<close>

definition ex_over :: txp_output where
  "ex_over = \<lparr> o_toAddress = Some ''addr1'', o_script = None, o_amount = 100000001, o_message = None \<rparr>"

definition ex_over_tx :: tx where
  "ex_over_tx = ex_tx0\<lparr> tx_outputs := [\<lparr> out_script = ''addr1'', out_satoshis = 100000001 \<rparr>] \<rparr>"

text \<open>
  Two proposals without a change address and without outputs: the inputs of \<open>ex_txp\<close>,
  and those with a second input of the same amount.
\<close>

definition ex_empty :: txp where
  "ex_empty = ex_txp\<lparr> p_outputs := Some [], p_changeAddress := None \<rparr>"

definition ex_empty_tx :: tx where
  "ex_empty_tx = ex_tx0\<lparr> tx_outputs := [], tx_changeScript := None \<rparr>"

definition ex_twice :: txp where
  "ex_twice = ex_empty\<lparr> p_inputs := p_inputs ex_txp
                 @ [\<lparr> i_txid = ''bb'', i_satoshis = 100000000, i_publicKeys = [] \<rparr>] \<rparr>"

text \<open>
  A proposal whose amounts are beyond the exact range: inputs of \<open>2 ^ 53 - 1\<close> and 1,
  outputs of \<open>2 ^ 53 - 1\<close> and 2, no fee and no change address; and its transaction.
\<close>

definition ex_rounding :: txp where
  "ex_rounding = ex_txp\<lparr>
     p_inputs := [\<lparr> i_txid = ''aa'', i_satoshis = 9007199254740991, i_publicKeys = [] \<rparr>,
                  \<lparr> i_txid = ''bb'', i_satoshis = 1, i_publicKeys = [] \<rparr>],
     p_outputs := Some [\<lparr> o_toAddress = Some ''addr1'', o_script = None, o_amount = 9007199254740991,
                          o_message = None \<rparr>,
                        \<lparr> o_toAddress = Some ''addr2'', o_script = None, o_amount = 2, o_message = None \<rparr>],
     p_fee := Some 0, p_changeAddress := None, p_outputOrder := [0, 1] \<rparr>"

definition ex_rounding_tx :: tx where
  "ex_rounding_tx = \<lparr>
     tx_inputs = [\<lparr> i_txid = ''aa'', i_satoshis = 9007199254740991, i_publicKeys = [] \<rparr>,
                  \<lparr> i_txid = ''bb'', i_satoshis = 1, i_publicKeys = [] \<rparr>],
     tx_outputs = [\<lparr> out_script = ''addr1'', out_satoshis = 9007199254740991 \<rparr>,
                   \<lparr> out_script = ''addr2'', out_satoshis = 2 \<rparr>],
     tx_fee = Some 0, tx_changeScript = None \<rparr>"

text \<open>A proposal with one output, and its transaction.\<close>

definition ex_single :: txp where
  "ex_single = ex_txp\<lparr> p_outputs := Some [\<lparr> o_toAddress = Some ''addr1'', o_script = None,
                                             o_amount = 99990000, o_message = None \<rparr>],
                        p_outputOrder := [4, 0] \<rparr>"

definition ex_single_tx :: tx where
  "ex_single_tx = ex_tx0\<lparr> tx_outputs := [\<lparr> out_script = ''addr1'', out_satoshis = 99990000 \<rparr>] \<rparr>"

text \<open>What a client submitted and what the server stored of it: the output's message is
  encrypted in the submission, the overall message is not.\<close>

definition ex_args :: proposal_args where
  "ex_args = \<lparr> g_outputs = [\<lparr> o_toAddress = Some ''addr1'', o_script = None, o_amount = 60000000,
                              o_message = Some ''{rent'' \<rparr>],
      g_changeAddress = None, g_feePerKb = None, g_payProUrl = None, g_message = Some ''hello'',
      g_customData = None \<rparr>"

definition ex_stored :: txp where
  "ex_stored = \<lparr> p_version = JNum 3, p_addressType = Some ''P2PKH'', p_inputs = [],
     p_requiredSignatures = 1, p_toAddress = None, p_amount = Some 60000000,
     p_outputs = Some [\<lparr> o_toAddress = Some ''addr1'', o_script = None, o_amount = 60000000,
                         o_message = Some ''rent'' \<rparr>],
     p_fee = Some 10000, p_feePerKb = None, p_changeAddress = None, p_outputOrder = [0],
     p_creatorId = Some ''id-xpubA'', p_proposalSignature = None, p_proposalSignaturePubKey = None,
     p_proposalSignaturePubKeySig = None, p_message = Some ''hello'', p_payProUrl = None,
     p_customData = None \<rparr>"

text \<open>A 2-of-3 wallet and two rosters for it, every entry signed with the wallet's key;
  in the second roster two entries carry the same extended public key.\<close>

definition ex_wallet :: credentials where
  "ex_wallet = \<lparr> c_network = ''livenet'', c_addressType = Some ''P2SH'', c_m = 2, c_n = 3,
     c_publicKeyRing = [\<lparr> r_xPubKey = ''xpubA'', r_requestPubKey = Some ''reqA'' \<rparr>,
                        \<lparr> r_xPubKey = ''xpubB'', r_requestPubKey = Some ''reqB'' \<rparr>,
                        \<lparr> r_xPubKey = ''xpubC'', r_requestPubKey = Some ''reqC'' \<rparr>],
     c_walletPrivKey = Some ''w'', c_xPubKey = Some ''xpubA'' \<rparr>"

definition signed_copayer :: "string \<Rightarrow> string \<Rightarrow> string \<Rightarrow> copayer" where
  "signed_copayer name xpub req =
     \<lparr> cp_name = Some name, cp_encryptedName = None, cp_xPubKey = Some xpub, cp_requestPubKey = Some req,
       cp_signature = Some (stub_sign ''pub-w'' (rev (name @ ''|'' @ xpub @ ''|'' @ req))) \<rparr>"

definition ex_roster :: "copayer list" where
  "ex_roster = [signed_copayer ''ann'' ''xpubA'' ''reqA'', signed_copayer ''bob'' ''xpubB'' ''reqB'',
                signed_copayer ''cat'' ''xpubC'' ''reqC'']"

definition dup_roster :: "copayer list" where
  "dup_roster = [signed_copayer ''ann'' ''xpubA'' ''reqA'', signed_copayer ''bob'' ''xpubB'' ''reqB'',
                 signed_copayer ''eve'' ''xpubB'' ''reqE'']"


section \<open>Facts about the model\<close>

subsection \<open>Results and preconditions\<close>

lemma seq_Inr_iff: "seq r f = Inr v \<longleftrightarrow> (\<exists>x. r = Inr x \<and> f x = Inr v)"
  by (cases r) (simp_all add: seq_def)

lemma seq_Inl_iff: "seq r f = Inl e \<longleftrightarrow> r = Inl e \<or> (\<exists>x. r = Inr x \<and> f x = Inl e)"
  by (cases r) (simp_all add: seq_def)

lemma checkState_Inr_iff: "checkState b = Inr u \<longleftrightarrow> b"
  by (simp add: checkState_def)

lemma checkState_Inl_iff: "checkState b = Inl e \<longleftrightarrow> \<not> b \<and> e = InvalidState"
  by (auto simp: checkState_def)

lemma checkArgument_Inr_iff: "checkArgument b = Inr u \<longleftrightarrow> b"
  by (simp add: checkArgument_def)

lemma checkArgument_Inl_iff: "checkArgument b = Inl e \<longleftrightarrow> \<not> b \<and> e = InvalidArgument"
  by (auto simp: checkArgument_def)

lemma lib_Inr_iff: "lib r = Inr v \<longleftrightarrow> r = Some v"
  by (cases r) (simp_all add: lib_def)

lemma lib_Inl_iff: "lib r = Inl e \<longleftrightarrow> r = None \<and> e = LibraryError"
  by (cases r) (auto simp: lib_def)

subsection \<open>Numbers\<close>

lemma quantum_small: "a < 2 ^ 53 \<Longrightarrow> quantum a = 1"
  by (simp add: quantum.simps)

text \<open>An integer below \<open>2 ^ 53\<close> in magnitude is a double.\<close>

lemma to_double_exact: "\<bar>x\<bar> < 2 ^ 53 \<Longrightarrow> to_double x = Finite x"
proof -
  assume a: "\<bar>x\<bar> < 2 ^ 53"
  then have n: "nat \<bar>x\<bar> < 2 ^ 53" by (simp add: nat_less_iff)
  have "nat \<bar>x\<bar> < (2::nat) ^ 1024"
    using n by (rule less_le_trans) simp
  then show ?thesis
    using n by (auto simp: to_double_def quantum_small round_half_even_def Let_def)
qed

text \<open>\<open>2 ^ 53\<close> is a double, and \<open>2 ^ 53 + 1\<close> is halfway between two doubles and is
  read as the even one, \<open>2 ^ 53\<close>.\<close>

lemma quantum_2p53: "quantum 9007199254740992 = 2" "quantum 9007199254740993 = 2"
  by (simp_all add: quantum.simps)

lemma round_2p53: "round_half_even 9007199254740992 2 = 4503599627370496"
  "round_half_even 9007199254740993 2 = 4503599627370496"
  by (simp_all add: round_half_even_def Let_def)

lemma to_double_2p53: "to_double 9007199254740992 = Finite 9007199254740992"
  by (simp add: to_double_def quantum_2p53 round_2p53)

lemma to_double_2p53_1: "to_double 9007199254740993 = Finite 9007199254740992"
  by (simp add: to_double_def quantum_2p53 round_2p53)

lemma double_minus_exact: "\<bar>x - y\<bar> < 2 ^ 53 \<Longrightarrow> double_minus (Finite x) (Finite y) = Finite (x - y)"
  by (simp add: double_minus_def to_double_exact)

lemma foldl_double_exact:
  "\<bar>memo\<bar> + sum_list (map (\<lambda>x. \<bar>f x\<bar>) xs) < 2 ^ 53 \<Longrightarrow>
     foldl (\<lambda>memo x. double_plus (to_double (f x)) memo) (Finite memo) xs
       = Finite (memo + sum_list (map f xs))"
proof (induction xs arbitrary: memo)
  case Nil
  then show ?case by simp
next
  case (Cons x xs)
  have nonneg: "0 \<le> sum_list (map (\<lambda>x. \<bar>f x\<bar>) xs)"
    by (rule sum_list_nonneg) auto
  have fx: "\<bar>f x\<bar> < 2 ^ 53" using Cons.prems nonneg by simp
  have s: "\<bar>f x + memo\<bar> < 2 ^ 53" using Cons.prems nonneg by simp
  have "\<bar>f x + memo\<bar> + sum_list (map (\<lambda>x. \<bar>f x\<bar>) xs) < 2 ^ 53"
    using Cons.prems by simp
  from Cons.IH [OF this]
  have ih: "foldl (\<lambda>memo x. double_plus (to_double (f x)) memo) (Finite (f x + memo)) xs
              = Finite (f x + memo + sum_list (map f xs))" .
  have step: "double_plus (to_double (f x)) (Finite memo) = Finite (f x + memo)"
    by (simp add: to_double_exact [OF fx] to_double_exact [OF s])
  show ?case
    by (simp add: step ih)
qed

text \<open>The equations that evaluate the model on the concrete instance.\<close>

lemmas stub_simps = stub_def stub_constants_def stub_sign_def seq_def checkState_def checkArgument_def lib_def try_catch_def
  truthy_def truthy_num_def js_or_def js_str_def num_val_def difference_def SCRIPT_TYPES_values_def isComplete_def

lemmas buildTx_simps = buildTx_def assembleTx_def shuffleOutputs_def checkFee_def addInputs_def addOutputs_def
  addOutput_each_def new_Transaction_def filteredOrder_def Transaction_sortOutputs_def js_nth_def
  List.map_filter_def totalInputs_def totalOutputs_def feeDifference_def double_minus_def double_ge_def
  to_double_exact MAX_TX_FEE_def COIN_def enumerate_eq_zip

subsection \<open>\<^verbatim>\<open>buildTx\<close>\<close>

lemma totalInputs_exact:
  "sum_list (map (\<lambda>i. \<bar>i_satoshis i\<bar>) (p_inputs txp)) < 2 ^ 53 \<Longrightarrow>
     totalInputs txp = Finite (sum_list (map i_satoshis (p_inputs txp)))"
  using foldl_double_exact [of 0 i_satoshis "p_inputs txp"] by (simp add: totalInputs_def)

lemma totalOutputs_exact:
  "sum_list (map (\<lambda>o'. \<bar>out_satoshis o'\<bar>) (tx_outputs t)) < 2 ^ 53 \<Longrightarrow>
     totalOutputs t = Finite (sum_list (map out_satoshis (tx_outputs t)))"
  using foldl_double_exact [of 0 out_satoshis "tx_outputs t"] by (simp add: totalOutputs_def)

lemma exactSums_totals:
  assumes "exactSums txp t"
  shows "totalInputs txp = Finite (sum_list (map i_satoshis (p_inputs txp)))"
    and "totalOutputs t = Finite (sum_list (map out_satoshis (tx_outputs t)))"
    and "feeDifference txp t =
           Finite (sum_list (map i_satoshis (p_inputs txp)) - sum_list (map out_satoshis (tx_outputs t)))"
proof -
  let ?ins = "map i_satoshis (p_inputs txp)" and ?outs = "map out_satoshis (tx_outputs t)"
  have a: "sum_list (map abs ?ins) + sum_list (map abs ?outs) < 2 ^ 53"
    using assms by (simp add: exactSums_def comp_def)
  have ni: "0 \<le> sum_list (map abs ?ins)" and no: "0 \<le> sum_list (map abs ?outs)"
    by (rule sum_list_nonneg, auto)+
  have bi: "\<bar>sum_list ?ins\<bar> \<le> sum_list (map abs ?ins)" and bo: "\<bar>sum_list ?outs\<bar> \<le> sum_list (map abs ?outs)"
    by (rule sum_list_abs)+
  show ti: "totalInputs txp = Finite (sum_list ?ins)"
    using a no by (intro totalInputs_exact) (simp add: comp_def)
  show to: "totalOutputs t = Finite (sum_list ?outs)"
    using a ni by (intro totalOutputs_exact) (simp add: comp_def)
  have "\<bar>sum_list ?ins - sum_list ?outs\<bar> < 2 ^ 53"
    using a bi bo by linarith
  then show "feeDifference txp t = Finite (sum_list ?ins - sum_list ?outs)"
    by (simp add: feeDifference_def ti to double_minus_exact)
qed

lemma checkFee_Inr_iff:
  "checkFee txp t = Inr t' \<longleftrightarrow>
     t' = t \<and> double_ge (feeDifference txp t) (Finite 0)
     \<and> double_le (feeDifference txp t) (Finite MAX_TX_FEE)"
  by (auto simp: checkFee_def seq_Inr_iff checkState_Inr_iff)

lemma checkFee_Inl: "checkFee txp t = Inl e \<Longrightarrow> e = InvalidState"
  by (auto simp: checkFee_def seq_Inl_iff checkState_Inl_iff)

text \<open>
  A list as long as a duplicate-free list that contains it has the same elements: a sorting
  accepted by \<^verbatim>\<open>sortOutputs\<close> picks every old output once and nothing else.
\<close>

lemma same_length_superset:
  assumes "length outs = length xs" and "distinct xs" and "set xs \<subseteq> set outs"
  shows "set outs = set xs"
proof -
  have "card (set outs) \<le> length outs" by (rule card_length)
  also have "\<dots> = card (set xs)" using assms(1,2) by (simp add: distinct_card)
  finally have "card (set outs) \<le> card (set xs)" .
  then have "set xs = set outs" using assms(3) by (intro card_seteq) simp_all
  then show ?thesis by simp
qed

lemma sortOutputs_Inr:
  assumes "Transaction_sortOutputs (\<lambda>outputs. map (\<lambda>i. js_nth outputs i) order) t = Inr t'"
  shows "t' = t\<lparr> tx_outputs := map (\<lambda>i. tx_outputs t ! nat i) order \<rparr>"
    and "\<forall>i \<in> set order. 0 \<le> i \<and> nat i < length (tx_outputs t)"
    and "length order = length (tx_outputs t)"
proof -
  define xs where "xs = enumerate 0 (tx_outputs t)"
  define outs where "outs = map (\<lambda>i. js_nth xs i) order"
  have len: "length xs = length outs" and diff: "difference (map Some xs) outs = []"
    and t': "t' = t\<lparr> tx_outputs := List.map_filter (map_option snd) outs \<rparr>"
    using assms unfolding Transaction_sortOutputs_def xs_def outs_def
    by (auto simp: Let_def split: if_splits)
  have sub: "set (map Some xs) \<subseteq> set outs"
    using diff by (auto simp: difference_def filter_empty_conv)
  have dist: "distinct (map Some xs)"
    by (simp add: xs_def distinct_map)
  have "set outs = set (map Some xs)"
    using len dist sub by (intro same_length_superset) simp_all
  then have noNone: "None \<notin> set outs" by auto
  show range: "\<forall>i \<in> set order. 0 \<le> i \<and> nat i < length (tx_outputs t)"
  proof
    fix i assume "i \<in> set order"
    then have "js_nth xs i \<in> set outs" by (simp add: outs_def)
    with noNone have "js_nth xs i \<noteq> None" by metis
    then show "0 \<le> i \<and> nat i < length (tx_outputs t)"
      by (simp add: js_nth_def xs_def split: if_splits)
  qed
  show "length order = length (tx_outputs t)"
    using len by (simp add: xs_def outs_def)
  have "List.map_filter (map_option snd) outs = map (\<lambda>i. tx_outputs t ! nat i) order"
    unfolding outs_def using range
  proof (induction order)
    case Nil
    then show ?case by (simp add: List.map_filter_simps)
  next
    case (Cons i order)
    then show ?case
      by (simp add: List.map_filter_simps js_nth_def xs_def nth_enumerate_eq)
  qed
  with t' show "t' = t\<lparr> tx_outputs := map (\<lambda>i. tx_outputs t ! nat i) order \<rparr>" by simp
qed

lemma buildTx_Inr_iff:
  "buildTx L C txp = Inr t \<longleftrightarrow>
     (\<exists>t0. assembleTx L C txp = Inr t0 \<and> shuffleOutputs txp t0 = Inr t \<and>
        double_ge (feeDifference txp t) (Finite 0) \<and>
        double_le (feeDifference txp t) (Finite MAX_TX_FEE))"
  by (auto simp: buildTx_def seq_Inr_iff checkFee_Inr_iff)

subsection \<open>\<^verbatim>\<open>checkAddress\<close>, \<^verbatim>\<open>verifyMessage\<close> and the signature of a proposal\<close>

lemma checkAddress_Inr_True_iff:
  "checkAddress L C cred addr = Inr True \<longleftrightarrow>
     isComplete cred \<and>
     (\<exists>local. deriveAddress L C (js_or (a_type addr) (c_addressType cred)) (c_publicKeyRing cred)
                 (a_path addr) (c_m cred) (c_network cred) = Inr local
        \<and> a_address addr = Some (d_address local)
        \<and> set (d_publicKeys local) \<subseteq> set (a_publicKeys addr))"
  by (auto simp: checkAddress_def seq_Inr_iff checkState_Inr_iff difference_def filter_empty_conv)

lemma hashMessage_Inr: "text \<noteq> [] \<Longrightarrow> hashMessage L text = Inr (rev (Hash_sha256sha256 L text))"
  by (simp add: hashMessage_def seq_def checkArgument_def)

lemma verifyMessage_not_TxpNotSupported: "verifyMessage L text signature pubKey \<noteq> Inl TxpNotSupported"
  by (auto simp: verifyMessage_def hashMessage_def seq_Inl_iff checkArgument_Inl_iff lib_Inl_iff try_catch_def
      split: option.splits sum.splits if_splits)

lemma verifyRequestPubKey_not_TxpNotSupported:
  "verifyRequestPubKey L C requestPubKey signature xPubKey \<noteq> Inl TxpNotSupported"
  by (auto simp: verifyRequestPubKey_def seq_Inl_iff lib_Inl_iff verifyMessage_not_TxpNotSupported)

lemma checkWithSigningPubKey_legacy:
  "\<not> version_ge_3 L (p_version txp) \<Longrightarrow>
     checkWithSigningPubKey L C cred txp key = (if truthy key then Inl TxpNotSupported else Inr False)"
  by (simp add: checkWithSigningPubKey_def seq_def)

subsection \<open>\<^verbatim>\<open>decryptMessage\<close> and \<^verbatim>\<open>checkProposalCreation\<close>\<close>

lemma decryptMessage_eq:
  "decryptMessage L c k =
     Inr (case sjcl_base64_toBits L k of
            None \<Rightarrow> c
          | Some key \<Rightarrow> (case sjcl_decrypt L key c of None \<Rightarrow> c | Some plain \<Rightarrow> Some plain))"
  by (simp add: decryptMessage_def try_catch_def seq_def lib_def split: option.splits)

lemma decryptMessage_fails: "decryptionFails L c k \<Longrightarrow> decryptMessage L c k = Inr c"
  by (auto simp: decryptMessage_eq decryptionFails_def split: option.splits)

lemma checkOutputs_total: "\<exists>b. checkOutputs L k ps = Inr b"
  by (induction ps) (auto simp: decryptMessage_eq)

lemma checkOutputs_mismatch:
  "(o1, o2) \<in> set ps \<Longrightarrow> decryptionFails L (o_message o2) k \<Longrightarrow>
   \<not> strEqual (o_message o1) (o_message o2) \<Longrightarrow> checkOutputs L k ps = Inr False"
proof (induction ps)
  case Nil
  then show ?case by simp
next
  case (Cons p ps)
  obtain a b where p: "p = (a, b)" by (cases p)
  show ?case
  proof (cases "(a, b) = (o1, o2)")
    case True
    then show ?thesis
      using Cons.prems(2,3) by (simp add: p decryptMessage_fails)
  next
    case False
    then have "checkOutputs L k ps = Inr False"
      using Cons by (auto simp: p)
    then show ?thesis
      by (simp add: p decryptMessage_eq)
  qed
qed

lemma checkProposalCreation_total:
  "p_outputs txp = Some outputs \<Longrightarrow> \<exists>b. checkProposalCreation L args txp k = Inr b"
  using checkOutputs_total [of L k "zip outputs (g_outputs args)"]
  by (auto simp: checkProposalCreation_def seq_def decryptMessage_eq Let_def)

subsection \<open>\<^verbatim>\<open>checkCopayers\<close>\<close>

text \<open>
  The counter of \<^verbatim>\<open>checkCopayers\<close> starts empty, so its one property ever written,
  \<^verbatim>\<open>"undefined"\<close>, holds \<^verbatim>\<open>NaN\<close> from the first iteration on, and the value of
  \<^verbatim>\<open>uniq[copayers.xPubKey]++\<close> is \<^verbatim>\<open>NaN\<close> in every iteration: the branch that reports
  a repeated key is never taken. A roster is accepted exactly when it has the length
  \<open>n\<close>, every entry is signed and the wallet's own key is among the entries.
\<close>

lemma nan_only_empty: "nan_only Map.empty"
  by (simp add: nan_only_def to_number_def)

lemma post_increment_nan:
  "nan_only uniq \<Longrightarrow> post_increment uniq k = (NaN, uniq(k \<mapsto> NaN)) \<and> nan_only (uniq(k \<mapsto> NaN))"
  by (simp add: nan_only_def post_increment_def plus_one_def to_number_def Let_def)

lemma each_after_error: "checkCopayers_each L w cs (uniq, True) c = Inr (uniq, True)"
  by (simp add: checkCopayers_each_def)

lemma fold_after_error: "foldM (checkCopayers_each L w cs) (uniq, True) xs = Inr (uniq, True)"
  by (induction xs) (simp_all add: each_after_error seq_def)

lemma each_no_error:
  assumes "nan_only uniq"
  shows "checkCopayers_each L w cs (uniq, False) c = Inr (u, e) \<Longrightarrow>
           u = uniq(''undefined'' \<mapsto> NaN) \<and> (e \<longleftrightarrow> \<not> copayerSigned L w c)"
  using post_increment_nan [OF assms, of "''undefined''"]
  by (auto simp: checkCopayers_each_def property_key_def copayers_xPubKey_def truthy_number_def
      copayerSigned_def Let_def seq_Inr_iff split: if_splits)

lemma fold_no_error:
  "nan_only uniq \<Longrightarrow>
     (\<exists>u. foldM (checkCopayers_each L w cs) (uniq, False) xs = Inr (u, False)) \<longleftrightarrow>
       list_all (copayerSigned L w) xs"
proof (induction xs arbitrary: uniq)
  case Nil
  then show ?case by simp
next
  case (Cons c xs)
  have n': "nan_only (uniq(''undefined'' \<mapsto> NaN))"
    using post_increment_nan [OF Cons.prems] by simp
  show ?case
  proof (cases "checkCopayers_each L w cs (uniq, False) c")
    case (Inl e)
    then have "\<not> copayerSigned L w c"
      using post_increment_nan [OF Cons.prems, of "''undefined''"]
      by (auto simp: checkCopayers_each_def property_key_def copayers_xPubKey_def truthy_number_def
          copayerSigned_def Let_def seq_def split: if_splits sum.splits)
    with Inl show ?thesis by (simp add: seq_def)
  next
    case (Inr st)
    obtain u e where st: "st = (u, e)" by (cases st)
    from each_no_error [OF Cons.prems] Inr st
    have u: "u = uniq(''undefined'' \<mapsto> NaN)" and e: "e \<longleftrightarrow> \<not> copayerSigned L w c" by auto
    have step: "foldM (checkCopayers_each L w cs) (uniq, False) (c # xs)
                = foldM (checkCopayers_each L w cs) (u, e) xs"
      using Inr st by (simp add: seq_def)
    show ?thesis
    proof (cases e)
      case True
      then show ?thesis using e unfolding step by (simp add: fold_after_error)
    next
      case False
      have "(\<exists>u'. foldM (checkCopayers_each L w cs) (u, False) xs = Inr (u', False))
              \<longleftrightarrow> list_all (copayerSigned L w) xs"
        unfolding u by (rule Cons.IH [OF n'])
      then show ?thesis using False e unfolding step by simp
    qed
  qed
qed

lemma checkCopayers_Inr_True_iff:
  "checkCopayers L cred copayers = Inr True \<longleftrightarrow>
     truthy (c_walletPrivKey cred) \<and>
     (\<exists>w. PrivateKey_toPublicKey L (js_str (c_walletPrivKey cred)) = Some w
        \<and> length copayers = c_n cred
        \<and> list_all (copayerSigned L w) copayers
        \<and> c_xPubKey cred \<in> set (map cp_xPubKey copayers))"
proof (cases "truthy (c_walletPrivKey cred)")
  case False
  then show ?thesis by (simp add: checkCopayers_def seq_def checkState_def)
next
  case wpk: True
  show ?thesis
  proof (cases "PrivateKey_toPublicKey L (js_str (c_walletPrivKey cred))")
    case None
    then show ?thesis using wpk by (simp add: checkCopayers_def seq_def checkState_def lib_def)
  next
    case (Some w)
    have fold: "(\<exists>u. foldM (checkCopayers_each L w copayers) (Map.empty, False) copayers = Inr (u, False))
       \<longleftrightarrow> list_all (copayerSigned L w) copayers"
      by (rule fold_no_error [OF nan_only_empty])
    have eq: "checkCopayers L cred copayers =
         (if length copayers \<noteq> c_n cred then Inr False
          else seq (foldM (checkCopayers_each L w copayers) (Map.empty, False) copayers) (\<lambda>st.
               if snd st then Inr False
               else if c_xPubKey cred \<notin> set (map cp_xPubKey copayers) then Inr False
               else Inr True))"
      using wpk Some by (simp add: checkCopayers_def seq_def checkState_def lib_def)
    show ?thesis
    proof (cases "foldM (checkCopayers_each L w copayers) (Map.empty, False) copayers")
      case (Inl e)
      then show ?thesis using fold wpk Some unfolding eq by (simp add: seq_def)
    next
      case (Inr st)
      obtain u e where st: "st = (u, e)" by (cases st)
      show ?thesis using fold wpk Some Inr st unfolding eq by (cases e) (auto simp: seq_def)
    qed
  qed
qed

subsection \<open>\<^verbatim>\<open>convertTxpSatoshiToCoinProtocol\<close>\<close>






section \<open>The fee bound of \<^verbatim>\<open>buildTx\<close>\<close>

text \<open>The proposal \<open>ex_txp\<close> and variants of it, evaluated.\<close>

lemma ex_txp_builds: "buildTx stub stub_constants ex_txp = Inr ex_tx
   \<and> assembleTx stub stub_constants ex_txp = Inr ex_tx0 \<and> shuffleOutputs ex_txp ex_tx0 = Inr ex_tx
   \<and> exactSums ex_txp ex_tx"
  by (simp add: buildTx_simps exactSums_def ex_txp_def ex_tx_def ex_tx0_def ex_address_def stub_simps)

lemma ex_txp_sums: "sum_list (map i_satoshis (p_inputs ex_txp)) = 100000000
   \<and> sum_list (map out_satoshis (tx_outputs ex_tx)) = 99990000"
  by (simp add: ex_txp_def ex_tx_def ex_tx0_def)

lemma ex_over_assembles: "assembleTx stub stub_constants (ex_txp\<lparr> p_outputs := Some [ex_over] \<rparr>) = Inr ex_over_tx"
  by (simp add: assembleTx_def addInputs_def addOutputs_def addOutput_each_def new_Transaction_def
      ex_txp_def ex_tx0_def ex_over_def ex_over_tx_def ex_address_def stub_simps)

lemma ex_over_keeps_order: "shuffleOutputs (ex_txp\<lparr> p_outputs := Some [ex_over] \<rparr>) ex_over_tx = Inr ex_over_tx"
  by (simp add: shuffleOutputs_def ex_over_tx_def ex_tx0_def)

lemma ex_over_sums: "exactSums (ex_txp\<lparr> p_outputs := Some [ex_over] \<rparr>) ex_over_tx
   \<and> sum_list (map i_satoshis (p_inputs (ex_txp\<lparr> p_outputs := Some [ex_over] \<rparr>))) = 100000000
   \<and> sum_list (map out_satoshis (tx_outputs ex_over_tx)) = 100000001"
  by (simp add: exactSums_def ex_txp_def ex_over_tx_def ex_tx0_def)

lemma ex_empty_assembles: "assembleTx stub stub_constants ex_empty = Inr ex_empty_tx
   \<and> shuffleOutputs ex_empty ex_empty_tx = Inr ex_empty_tx"
  by (simp add: assembleTx_def shuffleOutputs_def addInputs_def addOutputs_def addOutput_each_def
      new_Transaction_def ex_empty_def ex_empty_tx_def ex_txp_def ex_tx0_def stub_simps)

lemma ex_empty_sums: "exactSums ex_empty ex_empty_tx
   \<and> sum_list (map i_satoshis (p_inputs ex_empty)) = 100000000
   \<and> sum_list (map out_satoshis (tx_outputs ex_empty_tx)) = 0"
  by (simp add: exactSums_def ex_empty_def ex_empty_tx_def ex_txp_def ex_tx0_def)

lemma ex_twice_assembles: "assembleTx stub stub_constants ex_twice
     = Inr (ex_empty_tx\<lparr> tx_inputs := p_inputs ex_twice \<rparr>)
   \<and> shuffleOutputs ex_twice (ex_empty_tx\<lparr> tx_inputs := p_inputs ex_twice \<rparr>)
     = Inr (ex_empty_tx\<lparr> tx_inputs := p_inputs ex_twice \<rparr>)"
  by (simp add: assembleTx_def shuffleOutputs_def addInputs_def addOutputs_def addOutput_each_def
      new_Transaction_def ex_twice_def ex_empty_def ex_empty_tx_def ex_txp_def ex_tx0_def stub_simps)

lemma ex_twice_sums: "exactSums ex_twice (ex_empty_tx\<lparr> tx_inputs := p_inputs ex_twice \<rparr>)
   \<and> sum_list (map i_satoshis (p_inputs ex_twice)) = 200000000
   \<and> sum_list (map out_satoshis (tx_outputs (ex_empty_tx\<lparr> tx_inputs := p_inputs ex_twice \<rparr>))) = 0"
  by (simp add: exactSums_def ex_twice_def ex_empty_def ex_empty_tx_def ex_txp_def ex_tx0_def)

text \<open>The proposal \<open>ex_rounding\<close>: the inputs add up to \<open>2 ^ 53\<close>, the outputs to
  \<open>2 ^ 53 + 1\<close>, which is read as \<open>2 ^ 53\<close>.\<close>

lemma ex_rounding_assembles: "assembleTx stub stub_constants ex_rounding = Inr ex_rounding_tx
   \<and> shuffleOutputs ex_rounding ex_rounding_tx = Inr ex_rounding_tx"
  by (simp add: assembleTx_def shuffleOutputs_def addInputs_def addOutputs_def addOutput_each_def
      new_Transaction_def filteredOrder_def Transaction_sortOutputs_def js_nth_def List.map_filter_def
      enumerate_eq_zip ex_rounding_def ex_rounding_tx_def ex_txp_def stub_simps)

lemma ex_rounding_totals: "totalInputs ex_rounding = Finite 9007199254740992
   \<and> totalOutputs ex_rounding_tx = Finite 9007199254740992
   \<and> feeDifference ex_rounding ex_rounding_tx = Finite 0"
  by (simp add: totalInputs_def totalOutputs_def feeDifference_def double_minus_def to_double_exact
      to_double_2p53 to_double_2p53_1 ex_rounding_def ex_rounding_tx_def ex_txp_def)

lemma ex_rounding_builds: "buildTx stub stub_constants ex_rounding = Inr ex_rounding_tx"
  by (simp add: buildTx_def ex_rounding_assembles ex_rounding_totals seq_def checkFee_def checkState_def
      double_ge_def MAX_TX_FEE_def COIN_def)

text \<open>
  C1, as the code has it. The totals are computed in double precision: \<open>totalInputs\<close>
  adds the \<^verbatim>\<open>satoshis\<close> of the proposal's inputs and \<open>totalOutputs\<close> the \<^verbatim>\<open>satoshis\<close> of the
  outputs of the transaction that has been built (not a total the proposal declares), and
  \<open>MAX_TX_FEE\<close> is 100000000. \<^verbatim>\<open>buildTx\<close> returns a transaction only if the difference
  of the totals, as computed, is at least 0 and at most \<open>MAX_TX_FEE\<close>. Once the
  transaction is assembled (\<open>assembleTx\<close>) and its outputs are put in order
  (\<open>shuffleOutputs\<close>), \<^verbatim>\<open>buildTx\<close> succeeds if and only if that holds, and fails with the
  state error otherwise. When the magnitudes of all the amounts add up to less than
  \<open>2 ^ 53\<close>, the totals are the exact sums and the condition is
  \<open>0 \<le> sum of inputs - sum of outputs \<le> 100000000\<close>. The bound alone does not make the
  call succeed: the assembly and the ordering have failures of their own.
\<close>

theorem buildTx_fee_bound:
  "(buildTx L C txp = Inr t \<longrightarrow>
      double_ge (feeDifference txp t) (Finite 0) \<and> double_le (feeDifference txp t) (Finite MAX_TX_FEE))
   \<and> (assembleTx L C txp = Inr t0 \<and> shuffleOutputs txp t0 = Inr t \<longrightarrow>
        (buildTx L C txp = Inr t \<longleftrightarrow>
           double_ge (feeDifference txp t) (Finite 0)
           \<and> double_le (feeDifference txp t) (Finite MAX_TX_FEE))
        \<and> (buildTx L C txp = Inr t \<or> buildTx L C txp = Inl InvalidState))
   \<and> feeDifference txp t = double_minus (totalInputs txp) (totalOutputs t)
   \<and> (exactSums txp t \<longrightarrow>
        totalInputs txp = Finite (sum_list (map i_satoshis (p_inputs txp)))
        \<and> totalOutputs t = Finite (sum_list (map out_satoshis (tx_outputs t)))
        \<and> ((double_ge (feeDifference txp t) (Finite 0)
             \<and> double_le (feeDifference txp t) (Finite MAX_TX_FEE)) \<longleftrightarrow>
            (0 \<le> sum_list (map i_satoshis (p_inputs txp)) - sum_list (map out_satoshis (tx_outputs t))
             \<and> sum_list (map i_satoshis (p_inputs txp)) - sum_list (map out_satoshis (tx_outputs t))
                 \<le> 100000000)))
   \<and> MAX_TX_FEE = 100000000"
proof (intro conjI impI)
  assume "buildTx L C txp = Inr t"
  then show "double_ge (feeDifference txp t) (Finite 0)"
    "double_le (feeDifference txp t) (Finite MAX_TX_FEE)"
    by (auto simp: buildTx_Inr_iff)
next
  assume a: "assembleTx L C txp = Inr t0 \<and> shuffleOutputs txp t0 = Inr t"
  then show "buildTx L C txp = Inr t \<longleftrightarrow>
           double_ge (feeDifference txp t) (Finite 0)
           \<and> double_le (feeDifference txp t) (Finite MAX_TX_FEE)"
    by (auto simp: buildTx_Inr_iff)
  from a have "buildTx L C txp = checkFee txp t"
    by (simp add: buildTx_def seq_def)
  then show "buildTx L C txp = Inr t \<or> buildTx L C txp = Inl InvalidState"
    by (cases "checkFee txp t") (auto simp: checkFee_Inr_iff dest: checkFee_Inl)
next
  show "feeDifference txp t = double_minus (totalInputs txp) (totalOutputs t)"
    by (simp add: feeDifference_def)
next
  assume e: "exactSums txp t"
  show "totalInputs txp = Finite (sum_list (map i_satoshis (p_inputs txp)))"
    by (rule exactSums_totals(1) [OF e])
  show "totalOutputs t = Finite (sum_list (map out_satoshis (tx_outputs t)))"
    by (rule exactSums_totals(2) [OF e])
  show "(double_ge (feeDifference txp t) (Finite 0)
             \<and> double_le (feeDifference txp t) (Finite MAX_TX_FEE)) \<longleftrightarrow>
        (0 \<le> sum_list (map i_satoshis (p_inputs txp)) - sum_list (map out_satoshis (tx_outputs t))
             \<and> sum_list (map i_satoshis (p_inputs txp)) - sum_list (map out_satoshis (tx_outputs t))
                 \<le> 100000000)"
    by (simp add: exactSums_totals(3) [OF e] double_ge_def MAX_TX_FEE_def COIN_def)
next
  show "MAX_TX_FEE = 100000000" by (simp add: MAX_TX_FEE_def COIN_def)
qed

text \<open>
  The proposal \<open>ex_txp\<close>: inputs of 100000000, outputs of 99990000, a fee of 10000. With
  an output of 100000001 the difference is negative and the call fails. Without a change
  address and without outputs the difference is 100000000, the largest the bound admits,
  and the call succeeds; with a second input of 100000000 it fails.
\<close>

theorem buildTx_fee_bound_witness:
  "buildTx stub stub_constants ex_txp = Inr ex_tx
   \<and> assembleTx stub stub_constants ex_txp = Inr ex_tx0 \<and> shuffleOutputs ex_txp ex_tx0 = Inr ex_tx
   \<and> exactSums ex_txp ex_tx
   \<and> totalInputs ex_txp = Finite 100000000 \<and> totalOutputs ex_tx = Finite 99990000
   \<and> double_ge (feeDifference ex_txp ex_tx) (Finite 0)
   \<and> double_le (feeDifference ex_txp ex_tx) (Finite MAX_TX_FEE)
   \<and> assembleTx stub stub_constants (ex_txp\<lparr> p_outputs := Some [ex_over] \<rparr>) = Inr ex_over_tx
   \<and> shuffleOutputs (ex_txp\<lparr> p_outputs := Some [ex_over] \<rparr>) ex_over_tx = Inr ex_over_tx
   \<and> exactSums (ex_txp\<lparr> p_outputs := Some [ex_over] \<rparr>) ex_over_tx
   \<and> buildTx stub stub_constants (ex_txp\<lparr> p_outputs := Some [ex_over] \<rparr>) = Inl InvalidState
   \<and> exactSums ex_empty ex_empty_tx
   \<and> buildTx stub stub_constants ex_empty = Inr ex_empty_tx
   \<and> exactSums ex_twice (ex_empty_tx\<lparr> tx_inputs := p_inputs ex_twice \<rparr>)
   \<and> buildTx stub stub_constants ex_twice = Inl InvalidState"
proof -
  note first = buildTx_fee_bound [where L = stub and C = stub_constants and txp = ex_txp and t = ex_tx
      and ?t0.0 = ex_tx0]
  note over = buildTx_fee_bound [where L = stub and C = stub_constants
      and txp = "ex_txp\<lparr> p_outputs := Some [ex_over] \<rparr>" and t = ex_over_tx and ?t0.0 = ex_over_tx]
  note empty = buildTx_fee_bound [where L = stub and C = stub_constants and txp = ex_empty
      and t = ex_empty_tx and ?t0.0 = ex_empty_tx]
  note twice = buildTx_fee_bound [where L = stub and C = stub_constants and txp = ex_twice
      and t = "ex_empty_tx\<lparr> tx_inputs := p_inputs ex_twice \<rparr>"
      and ?t0.0 = "ex_empty_tx\<lparr> tx_inputs := p_inputs ex_twice \<rparr>"]
  have bound: "double_ge (feeDifference ex_txp ex_tx) (Finite 0)
      \<and> double_le (feeDifference ex_txp ex_tx) (Finite MAX_TX_FEE)"
    using first ex_txp_builds by blast
  have totals: "totalInputs ex_txp = Finite 100000000 \<and> totalOutputs ex_tx = Finite 99990000"
    using first ex_txp_builds ex_txp_sums by simp
  have "\<not> (0 \<le> sum_list (map i_satoshis (p_inputs (ex_txp\<lparr> p_outputs := Some [ex_over] \<rparr>)))
                - sum_list (map out_satoshis (tx_outputs ex_over_tx)))"
    using ex_over_sums by simp
  then have b1: "buildTx stub stub_constants (ex_txp\<lparr> p_outputs := Some [ex_over] \<rparr>) = Inl InvalidState"
    using over ex_over_assembles ex_over_keeps_order ex_over_sums by blast
  have "0 \<le> sum_list (map i_satoshis (p_inputs ex_empty)) - sum_list (map out_satoshis (tx_outputs ex_empty_tx))
      \<and> sum_list (map i_satoshis (p_inputs ex_empty)) - sum_list (map out_satoshis (tx_outputs ex_empty_tx))
          \<le> 100000000"
    using ex_empty_sums by simp
  then have b2: "buildTx stub stub_constants ex_empty = Inr ex_empty_tx"
    using empty ex_empty_assembles ex_empty_sums by blast
  have "\<not> (sum_list (map i_satoshis (p_inputs ex_twice))
             - sum_list (map out_satoshis (tx_outputs (ex_empty_tx\<lparr> tx_inputs := p_inputs ex_twice \<rparr>)))
             \<le> 100000000)"
    using ex_twice_sums by simp
  then have b3: "buildTx stub stub_constants ex_twice = Inl InvalidState"
    using twice ex_twice_assembles ex_twice_sums by blast
  show ?thesis
    using bound totals b1 b2 b3 ex_txp_builds ex_over_assembles ex_over_keeps_order ex_over_sums
      ex_empty_sums ex_twice_sums by blast
qed

text \<open>
  C1 as it is stated, with "if and only if" for every proposal and the totals as sums,
  fails in two ways. With the inputs and outputs of \<open>ex_txp\<close> (100000000 and 99990000,
  inside the bound) \<^verbatim>\<open>buildTx\<close> fails when the proposal's \<^verbatim>\<open>outputOrder\<close> is empty, and
  when its address type is not a script type of the constants. And with the inputs and
  outputs of \<open>ex_rounding\<close>, whose sums differ by \<open>- 1\<close>, \<^verbatim>\<open>buildTx\<close> returns the
  transaction: both totals are computed as \<open>2 ^ 53\<close>.
\<close>

theorem buildTx_other_failures_counterexample:
  "assembleTx stub stub_constants (ex_txp\<lparr> p_outputOrder := [] \<rparr>) = Inr ex_tx0
   \<and> totalInputs (ex_txp\<lparr> p_outputOrder := [] \<rparr>) = Finite 100000000
   \<and> totalOutputs ex_tx0 = Finite 99990000
   \<and> MAX_TX_FEE = 100000000
   \<and> buildTx stub stub_constants (ex_txp\<lparr> p_outputOrder := [] \<rparr>) = Inl InvalidState
   \<and> buildTx stub stub_constants (ex_txp\<lparr> p_addressType := Some ''P2WPKH'' \<rparr>) = Inl InvalidState
   \<and> buildTx stub stub_constants ex_rounding = Inr ex_rounding_tx
   \<and> sum_list (map i_satoshis (p_inputs ex_rounding))
        - sum_list (map out_satoshis (tx_outputs ex_rounding_tx)) = - 1
   \<and> totalInputs ex_rounding = Finite 9007199254740992
   \<and> totalOutputs ex_rounding_tx = Finite 9007199254740992"
proof -
  have a: "assembleTx stub stub_constants (ex_txp\<lparr> p_outputOrder := [] \<rparr>) = Inr ex_tx0
   \<and> totalInputs (ex_txp\<lparr> p_outputOrder := [] \<rparr>) = Finite 100000000
   \<and> totalOutputs ex_tx0 = Finite 99990000
   \<and> MAX_TX_FEE = 100000000
   \<and> buildTx stub stub_constants (ex_txp\<lparr> p_outputOrder := [] \<rparr>) = Inl InvalidState
   \<and> buildTx stub stub_constants (ex_txp\<lparr> p_addressType := Some ''P2WPKH'' \<rparr>) = Inl InvalidState"
    by (simp add: buildTx_simps ex_txp_def ex_tx_def ex_tx0_def ex_address_def stub_simps)
  have b: "sum_list (map i_satoshis (p_inputs ex_rounding))
        - sum_list (map out_satoshis (tx_outputs ex_rounding_tx)) = - 1"
    by (simp add: ex_rounding_def ex_rounding_tx_def ex_txp_def)
  show ?thesis
    using a b ex_rounding_builds ex_rounding_totals by blast
qed

section \<open>The order of the outputs\<close>

text \<open>
  C5. Let \<open>t\<close> be the transaction \<^verbatim>\<open>buildTx\<close> has assembled from the proposal (inputs,
  outputs, fee, change). With at most one output no reordering is applied: the fee check
  runs on \<open>t\<close> itself. With more than one output the order is the proposal's
  \<^verbatim>\<open>outputOrder\<close> without the indices that are not below the number of outputs;
  \<^verbatim>\<open>buildTx\<close> fails when that filtered order has not as many entries as there are
  outputs; and when \<^verbatim>\<open>buildTx\<close> returns a transaction, its outputs are those of \<open>t\<close>
  in the filtered order: the output at position \<open>k\<close> is output \<open>i\<close> of \<open>t\<close>, where \<open>i\<close> is
  entry \<open>k\<close> of the filtered order.
\<close>

theorem buildTx_reorders:
  assumes "assembleTx L C txp = Inr t"
  shows "(length (tx_outputs t) \<le> 1 \<longrightarrow>
           buildTx L C txp = checkFee txp t \<and> (buildTx L C txp = Inr t' \<longrightarrow> t' = t))
    \<and> (length (tx_outputs t) > 1 \<and> length (filteredOrder txp t) \<noteq> length (tx_outputs t) \<longrightarrow>
         buildTx L C txp = Inl InvalidState)
    \<and> (length (tx_outputs t) > 1 \<and> buildTx L C txp = Inr t' \<longrightarrow>
         tx_outputs t' = map (\<lambda>i. tx_outputs t ! nat i) (filteredOrder txp t)
         \<and> (\<forall>k < length (tx_outputs t'). \<forall>i. filteredOrder txp t ! k = int i \<longrightarrow>
               tx_outputs t' ! k = tx_outputs t ! i))
    \<and> filteredOrder txp t = filter (\<lambda>i. i < int (length (tx_outputs t))) (p_outputOrder txp)"
proof (intro conjI impI)
  assume "length (tx_outputs t) \<le> 1"
  then show same: "buildTx L C txp = checkFee txp t"
    using assms by (simp add: buildTx_def shuffleOutputs_def seq_def)
  assume "buildTx L C txp = Inr t'"
  then show "t' = t"
    unfolding same by (simp add: checkFee_Inr_iff)
next
  assume "length (tx_outputs t) > 1 \<and> length (filteredOrder txp t) \<noteq> length (tx_outputs t)"
  then show "buildTx L C txp = Inl InvalidState"
    using assms by (auto simp: buildTx_def shuffleOutputs_def seq_def checkState_def Let_def)
next
  assume a: "length (tx_outputs t) > 1 \<and> buildTx L C txp = Inr t'"
  then have "shuffleOutputs txp t = Inr t'"
    using assms by (auto simp: buildTx_Inr_iff)
  with a have s: "Transaction_sortOutputs (\<lambda>outputs. map (\<lambda>i. js_nth outputs i) (filteredOrder txp t)) t = Inr t'"
    by (auto simp: shuffleOutputs_def Let_def seq_Inr_iff)
  from sortOutputs_Inr(1)[OF s]
  show eq: "tx_outputs t' = map (\<lambda>i. tx_outputs t ! nat i) (filteredOrder txp t)" by simp
  show "\<forall>k < length (tx_outputs t'). \<forall>i. filteredOrder txp t ! k = int i \<longrightarrow>
               tx_outputs t' ! k = tx_outputs t ! i"
    using eq by auto
next
  show "filteredOrder txp t = filter (\<lambda>i. i < int (length (tx_outputs t))) (p_outputOrder txp)"
    by (simp add: filteredOrder_def not_le)
qed

text \<open>
  The order \<open>[1, 0]\<close> swaps the two outputs of \<open>ex_txp\<close>; so does \<open>[1, 2, 0, 7]\<close>, whose
  entries 2 and 7 are discarded; the order \<open>[1]\<close> is too short; and the order of the
  one-output proposal \<open>ex_single\<close> is not read.
\<close>

theorem buildTx_reorders_witness:
  "assembleTx stub stub_constants ex_txp = Inr ex_tx0
   \<and> length (tx_outputs ex_tx0) > 1 \<and> buildTx stub stub_constants ex_txp = Inr ex_tx
   \<and> filteredOrder ex_txp ex_tx0 = [1, 0]
   \<and> tx_outputs ex_tx = [tx_outputs ex_tx0 ! 1, tx_outputs ex_tx0 ! 0]
   \<and> assembleTx stub stub_constants (ex_txp\<lparr> p_outputOrder := [1, 2, 0, 7] \<rparr>) = Inr ex_tx0
   \<and> filteredOrder (ex_txp\<lparr> p_outputOrder := [1, 2, 0, 7] \<rparr>) ex_tx0 = [1, 0]
   \<and> buildTx stub stub_constants (ex_txp\<lparr> p_outputOrder := [1, 2, 0, 7] \<rparr>) = Inr ex_tx
   \<and> assembleTx stub stub_constants (ex_txp\<lparr> p_outputOrder := [1] \<rparr>) = Inr ex_tx0
   \<and> length (filteredOrder (ex_txp\<lparr> p_outputOrder := [1] \<rparr>) ex_tx0) \<noteq> length (tx_outputs ex_tx0)
   \<and> buildTx stub stub_constants (ex_txp\<lparr> p_outputOrder := [1] \<rparr>) = Inl InvalidState
   \<and> assembleTx stub stub_constants ex_single = Inr ex_single_tx
   \<and> length (tx_outputs ex_single_tx) \<le> 1 \<and> p_outputOrder ex_single = [4, 0]
   \<and> buildTx stub stub_constants ex_single = Inr ex_single_tx"
  using buildTx_reorders [where L = stub and C = stub_constants and txp = ex_txp and t = ex_tx0 and t' = ex_tx]
    buildTx_reorders [where L = stub and C = stub_constants and txp = "ex_txp\<lparr> p_outputOrder := [1] \<rparr>"
      and t = ex_tx0 and t' = ex_tx]
    buildTx_reorders [where L = stub and C = stub_constants and txp = ex_single and t = ex_single_tx
      and t' = ex_single_tx]
  by (simp add: buildTx_simps ex_txp_def ex_tx_def ex_tx0_def ex_single_def ex_single_tx_def
      ex_address_def stub_simps)

section \<open>\<^verbatim>\<open>checkAddress\<close>\<close>

text \<open>
  C2, as the code has it. \<^verbatim>\<open>checkAddress\<close> returns true exactly when the credentials are
  complete, the address re-derived from them (with the path and the type of the address
  object) has the string \<^verbatim>\<open>address.address\<close>, and every re-derived public key occurs in
  \<^verbatim>\<open>address.publicKeys\<close>. The containment is tested in that direction only: an accepted
  address stays accepted when any keys are appended to its \<^verbatim>\<open>publicKeys\<close>.
\<close>

theorem checkAddress_one_sided:
  "(checkAddress L C cred addr = Inr True \<longleftrightarrow>
     isComplete cred \<and>
     (\<exists>local. deriveAddress L C (js_or (a_type addr) (c_addressType cred)) (c_publicKeyRing cred)
                 (a_path addr) (c_m cred) (c_network cred) = Inr local
        \<and> a_address addr = Some (d_address local)
        \<and> set (d_publicKeys local) \<subseteq> set (a_publicKeys addr)))
   \<and> (checkAddress L C cred addr = Inr True \<longrightarrow>
        checkAddress L C cred (addr\<lparr> a_publicKeys := a_publicKeys addr @ extra \<rparr>) = Inr True)"
proof (intro conjI impI)
  show "checkAddress L C cred addr = Inr True \<longleftrightarrow>
     isComplete cred \<and>
     (\<exists>local. deriveAddress L C (js_or (a_type addr) (c_addressType cred)) (c_publicKeyRing cred)
                 (a_path addr) (c_m cred) (c_network cred) = Inr local
        \<and> a_address addr = Some (d_address local)
        \<and> set (d_publicKeys local) \<subseteq> set (a_publicKeys addr))"
    by (rule checkAddress_Inr_True_iff)
next
  assume "checkAddress L C cred addr = Inr True"
  then show "checkAddress L C cred (addr\<lparr> a_publicKeys := a_publicKeys addr @ extra \<rparr>) = Inr True"
    unfolding checkAddress_Inr_True_iff by auto
qed

text \<open>The address \<open>ex_address\<close> of the wallet \<open>ex_credentials\<close>, as derived and with one
  more key.\<close>

theorem checkAddress_one_sided_witness:
  "checkAddress stub stub_constants ex_credentials ex_address = Inr True
   \<and> checkAddress stub stub_constants ex_credentials
        (ex_address\<lparr> a_publicKeys := a_publicKeys ex_address @ [''attacker''] \<rparr>) = Inr True"
  using checkAddress_one_sided [of stub stub_constants ex_credentials ex_address "[''attacker'']"]
  by (simp add: checkAddress_def deriveAddress_def ex_credentials_def ex_address_def stub_simps)

text \<open>
  C2 as it is stated requires the two sets of keys to be equal and an address with extra
  keys to be rejected. The address below carries the derived key and a second key that
  the derivation does not give, and is accepted.
\<close>

theorem checkAddress_extra_key_counterexample:
  "checkAddress stub stub_constants ex_credentials
      (ex_address\<lparr> a_publicKeys := [''xpubA/m/0/1'', ''attacker''] \<rparr>) = Inr True
   \<and> deriveAddress stub stub_constants (Some ''P2PKH'') (c_publicKeyRing ex_credentials) ''m/0/1'' 1 ''livenet''
       = Inr \<lparr> d_address = ''1xpubA/m/0/1'', d_path = ''m/0/1'', d_publicKeys = [''xpubA/m/0/1''] \<rparr>
   \<and> set [''xpubA/m/0/1'', ''attacker''] \<noteq> set [''xpubA/m/0/1'']"
  by (simp add: checkAddress_def deriveAddress_def ex_credentials_def ex_address_def stub_simps)

text \<open>
  C10, as the code has it. The script type of the re-derivation is
  \<^verbatim>\<open>address.type || credentials.addressType\<close>. When \<^verbatim>\<open>address.type\<close> is truthy, that is,
  present and not the empty string, it alone selects the derivation rule: the result of
  \<^verbatim>\<open>checkAddress\<close> does not depend on \<^verbatim>\<open>credentials.addressType\<close>. When
  \<^verbatim>\<open>address.type\<close> is absent or the empty string, \<^verbatim>\<open>credentials.addressType\<close> is used.
\<close>

theorem checkAddress_script_type:
  "(truthy (a_type addr) \<longrightarrow>
      checkAddress L C (cred\<lparr> c_addressType := other \<rparr>) addr = checkAddress L C cred addr
      \<and> checkAddress L C cred addr =
          seq (checkState (isComplete cred)) (\<lambda>_.
          seq (deriveAddress L C (a_type addr) (c_publicKeyRing cred) (a_path addr) (c_m cred) (c_network cred))
            (\<lambda>local. Inr (Some (d_address local) = a_address addr \<and>
                         length (difference (d_publicKeys local) (a_publicKeys addr)) = 0))))
   \<and> (\<not> truthy (a_type addr) \<longrightarrow>
      checkAddress L C cred addr =
          seq (checkState (isComplete cred)) (\<lambda>_.
          seq (deriveAddress L C (c_addressType cred) (c_publicKeyRing cred) (a_path addr) (c_m cred) (c_network cred))
            (\<lambda>local. Inr (Some (d_address local) = a_address addr \<and>
                         length (difference (d_publicKeys local) (a_publicKeys addr)) = 0))))
   \<and> (truthy (a_type addr) \<longleftrightarrow> (\<exists>t. a_type addr = Some t \<and> t \<noteq> []))"
  by (cases "a_type addr") (simp_all add: checkAddress_def js_or_def isComplete_def truthy_def)

text \<open>The address \<open>ex_address\<close> carries the type \<open>P2PKH\<close> and is accepted whatever the
  address type of the credentials; without its type it is checked with the type of the
  credentials.\<close>

theorem checkAddress_script_type_witness:
  "truthy (a_type ex_address)
   \<and> checkAddress stub stub_constants (ex_credentials\<lparr> c_addressType := Some ''P2SH'' \<rparr>) ex_address = Inr True
   \<and> checkAddress stub stub_constants ex_credentials ex_address = Inr True
   \<and> \<not> truthy (a_type (ex_address\<lparr> a_type := None \<rparr>))
   \<and> checkAddress stub stub_constants ex_credentials (ex_address\<lparr> a_type := None \<rparr>) = Inr True"
  using checkAddress_script_type [where addr = ex_address and L = stub and C = stub_constants
          and cred = ex_credentials and other = "Some ''P2SH''"]
        checkAddress_script_type [where addr = "ex_address\<lparr> a_type := None \<rparr>" and L = stub
          and C = stub_constants and cred = ex_credentials and other = "Some ''P2SH''"]
  by (simp add: checkAddress_def deriveAddress_def ex_credentials_def ex_address_def stub_simps)

text \<open>
  C10 as it is stated takes the type from the address object whenever the field is
  present. An address whose \<^verbatim>\<open>type\<close> is present and is the empty string is checked with
  the type of the credentials: the same address is accepted with credentials of type
  \<open>P2PKH\<close> and refused with credentials of type \<open>P2SH\<close>.
\<close>

theorem checkAddress_empty_type_counterexample:
  "a_type (ex_address\<lparr> a_type := Some [] \<rparr>) = Some []
   \<and> checkAddress stub stub_constants ex_credentials (ex_address\<lparr> a_type := Some [] \<rparr>) = Inr True
   \<and> checkAddress stub stub_constants (ex_credentials\<lparr> c_addressType := Some ''P2SH'' \<rparr>)
        (ex_address\<lparr> a_type := Some [] \<rparr>) = Inr False"
  by (simp add: checkAddress_def deriveAddress_def ex_credentials_def ex_address_def stub_simps)

section \<open>\<^verbatim>\<open>verifyMessage\<close>\<close>

text \<open>
  C4, as the code has it. For a non-empty text and a non-empty public-key string that
  Bitcore parses, \<^verbatim>\<open>verifyMessage\<close> returns a boolean, whatever the signature: a
  signature that does not parse and a failure inside the ECDSA verification both give
  false, and so does an absent or empty signature. The two argument checks and the
  parsing of the public key are outside the \<^verbatim>\<open>try\<close>: an empty public key raises the
  argument error, and a public key that does not parse raises the library's error when
  the signature is non-empty.
\<close>

theorem verifyMessage_total_on_parsed_key:
  "(msg \<noteq> [] \<and> pubKey \<noteq> [] \<and> PublicKey_new L pubKey = Some pub \<longrightarrow>
      (\<exists>b. verifyMessage L msg signature pubKey = Inr b)
      \<and> (\<forall>s. signature = Some s \<and> Signature_fromString L s = None \<longrightarrow>
            verifyMessage L msg signature pubKey = Inr False)
      \<and> (\<forall>s sig. signature = Some s \<and> Signature_fromString L s = Some sig
              \<and> ECDSA_verify L (rev (Hash_sha256sha256 L msg)) sig pub = None \<longrightarrow>
            verifyMessage L msg signature pubKey = Inr False))
   \<and> (msg \<noteq> [] \<and> pubKey \<noteq> [] \<and> \<not> truthy signature \<longrightarrow>
        verifyMessage L msg signature pubKey = Inr False)
   \<and> (msg \<noteq> [] \<and> pubKey = [] \<longrightarrow> verifyMessage L msg signature pubKey = Inl InvalidArgument)
   \<and> (msg \<noteq> [] \<and> pubKey \<noteq> [] \<and> truthy signature \<and> PublicKey_new L pubKey = None \<longrightarrow>
        verifyMessage L msg signature pubKey = Inl LibraryError)"
  by (cases signature; cases "Signature_fromString L (the signature)";
      cases "ECDSA_verify L (rev (Hash_sha256sha256 L msg)) (the (Signature_fromString L (the signature))) pub")
     (auto simp: verifyMessage_def hashMessage_Inr seq_def checkArgument_def lib_def try_catch_def truthy_def)

text \<open>On the concrete instance: a malformed signature and an absent one give false, a
  genuine one true; the empty key and the malformed key \<open>bad\<close> raise.\<close>

theorem verifyMessage_total_on_parsed_key_witness:
  "''hello'' \<noteq> [] \<and> ''pubkey'' \<noteq> [] \<and> PublicKey_new stub ''pubkey'' = Some ''pubkey''
   \<and> verifyMessage stub ''hello'' (Some ''bad'') ''pubkey'' = Inr False
   \<and> Signature_fromString stub ''bad'' = None
   \<and> verifyMessage stub ''hello'' (Some (stub_sign ''pubkey'' ''olleh'')) ''pubkey'' = Inr True
   \<and> verifyMessage stub ''hello'' None ''pubkey'' = Inr False
   \<and> verifyMessage stub ''hello'' (Some ''s'') [] = Inl InvalidArgument
   \<and> truthy (Some ''s'') \<and> PublicKey_new stub ''bad'' = None
   \<and> verifyMessage stub ''hello'' (Some ''s'') ''bad'' = Inl LibraryError"
  using verifyMessage_total_on_parsed_key [where L = stub and msg = "''hello''" and pubKey = "''pubkey''"
          and pub = "''pubkey''" and signature = "Some ''bad''"]
  by (simp add: verifyMessage_def hashMessage_def stub_simps)

text \<open>
  C4 as it is stated lets no failure escape for any public-key string. With a non-empty
  text, the empty public key raises (even with no signature), and a malformed public-key
  encoding raises.
\<close>

theorem verifyMessage_raises_counterexample:
  "verifyMessage stub ''hello'' (Some ''s'') [] = Inl InvalidArgument
   \<and> verifyMessage stub ''hello'' None [] = Inl InvalidArgument
   \<and> PublicKey_new stub ''bad'' = None
   \<and> verifyMessage stub ''hello'' (Some ''s'') ''bad'' = Inl LibraryError"
  by (simp add: verifyMessage_def hashMessage_def stub_simps)

section \<open>\<^verbatim>\<open>checkTxProposalSignature\<close> on a legacy proposal\<close>

text \<open>
  C6. Let the credentials be complete, the proposal's \<^verbatim>\<open>creatorId\<close> non-empty and its
  \<^verbatim>\<open>version\<close> parse to an integer below 3. Then \<^verbatim>\<open>checkTxProposalSignature\<close> raises the error
  \<open>TxpNotSupported\<close>, an error of its own kind and neither of the two booleans, exactly
  when the creator is found in the public-key ring and the signing key is established (the
  proposal's own key, vouched for by the creator's extended key, or else the creator's
  non-empty request key): the error is reached only after both. In no case does the call
  return true.
\<close>

theorem checkTxProposalSignature_legacy:
  assumes "isComplete cred" and "truthy (p_creatorId txp)"
    and "parseInt L (p_version txp) = Finite v" and "v < 3"
  shows "(checkTxProposalSignature L C cred txp = Inl TxpNotSupported \<longleftrightarrow>
           (\<exists>creatorKeys. findCreatorKeys L cred txp = Some creatorKeys
              \<and> signerEstablished L C txp creatorKeys))
       \<and> checkTxProposalSignature L C cred txp \<noteq> Inr True"
proof -
  have legacy: "\<not> version_ge_3 L (p_version txp)"
    using assms(3,4) by (simp add: version_ge_3_def double_ge_def)
  show ?thesis
  proof (cases "findCreatorKeys L cred txp")
    case None
    then show ?thesis using assms(1,2)
      by (simp add: checkTxProposalSignature_def seq_def checkArgument_def checkState_def)
  next
    case (Some creatorKeys)
    show ?thesis
    proof (cases "truthy (p_proposalSignaturePubKey txp)")
      case True
      then show ?thesis using assms(1,2) Some legacy
        verifyRequestPubKey_not_TxpNotSupported [of L C "js_str (p_proposalSignaturePubKey txp)"
          "p_proposalSignaturePubKeySig txp" "r_xPubKey creatorKeys"]
        by (cases "verifyRequestPubKey L C (js_str (p_proposalSignaturePubKey txp))
                     (p_proposalSignaturePubKeySig txp) (r_xPubKey creatorKeys)")
           (auto simp: checkTxProposalSignature_def seq_def checkArgument_def checkState_def
              checkWithSigningPubKey_legacy signerEstablished_def)
    next
      case False
      then show ?thesis using assms(1,2) Some legacy
        by (auto simp: checkTxProposalSignature_def seq_def checkArgument_def checkState_def
              checkWithSigningPubKey_legacy signerEstablished_def)
    qed
  qed
qed

text \<open>The proposal \<open>ex_txp\<close> with the version string \<open>2.1\<close>: its creator is the copayer of
  \<open>ex_credentials\<close>, whose request key is the signing key. With an unknown creator the
  call returns false.\<close>

theorem checkTxProposalSignature_legacy_witness:
  "isComplete ex_credentials \<and> truthy (p_creatorId ex_txp)
   \<and> parseInt stub (p_version (ex_txp\<lparr> p_version := JStr ''2.1'' \<rparr>)) = Finite 2 \<and> (2::int) < 3
   \<and> checkTxProposalSignature stub stub_constants ex_credentials (ex_txp\<lparr> p_version := JStr ''2.1'' \<rparr>)
       = Inl TxpNotSupported
   \<and> findCreatorKeys stub ex_credentials (ex_txp\<lparr> p_version := JStr ''2.1'' \<rparr>)
       = Some \<lparr> r_xPubKey = ''xpubA'', r_requestPubKey = Some ''reqA'' \<rparr>
   \<and> checkTxProposalSignature stub stub_constants ex_credentials
        (ex_txp\<lparr> p_version := JStr ''2.1'', p_creatorId := Some ''id-unknown'' \<rparr>) = Inr False"
  using checkTxProposalSignature_legacy [where cred = ex_credentials and L = stub and C = stub_constants
      and txp = "ex_txp\<lparr> p_version := JStr ''2.1'' \<rparr>" and v = 2]
  by (simp add: checkTxProposalSignature_def findCreatorKeys_def xPubToCopayerId_def
      checkWithSigningPubKey_def version_ge_3_def double_ge_def stub_parseInt_def to_double_exact
      parseInt_string_def parse_unsigned_def parse_digits_def
      is_digit_def digit_of_def digits_value_def is_space_def
      ex_credentials_def ex_txp_def stub_simps)

section \<open>Decryption failures\<close>

text \<open>
  C7, as the code has it. \<^verbatim>\<open>decryptMessage\<close> never raises; when the decryption fails it
  returns its first argument, the ciphertext, unchanged. Inside
  \<^verbatim>\<open>checkProposalCreation\<close> no failure of a decryption is propagated: with a list of
  outputs in the stored proposal the call returns a boolean. A failed decryption of the
  overall message, or of the message of an output, gives false when the stored message
  differs from the submitted string as it stands (and they are not both empty); it is
  not a mismatch by itself.
\<close>

theorem decryption_failure_is_absorbed:
  "(\<exists>v. decryptMessage L c k = Inr v)
   \<and> (decryptionFails L c k \<longrightarrow> decryptMessage L c k = Inr c)
   \<and> (p_outputs txp = Some outputs \<longrightarrow> (\<exists>b. checkProposalCreation L args txp k = Inr b))
   \<and> (p_outputs txp = Some outputs \<and> decryptionFails L (g_message args) k
        \<and> \<not> strEqual (p_message txp) (g_message args) \<longrightarrow>
        checkProposalCreation L args txp k = Inr False)
   \<and> (p_outputs txp = Some outputs \<and> (o1, o2) \<in> set (zip outputs (g_outputs args))
        \<and> decryptionFails L (o_message o2) k \<and> \<not> strEqual (o_message o1) (o_message o2) \<longrightarrow>
        checkProposalCreation L args txp k = Inr False)"
proof (intro conjI impI)
  show "\<exists>v. decryptMessage L c k = Inr v" by (simp add: decryptMessage_eq)
next
  assume "decryptionFails L c k"
  then show "decryptMessage L c k = Inr c" by (rule decryptMessage_fails)
next
  assume "p_outputs txp = Some outputs"
  then show "\<exists>b. checkProposalCreation L args txp k = Inr b" by (rule checkProposalCreation_total)
next
  assume a: "p_outputs txp = Some outputs \<and> decryptionFails L (g_message args) k
        \<and> \<not> strEqual (p_message txp) (g_message args)"
  obtain b where b: "checkOutputs L k (zip outputs (g_outputs args)) = Inr b"
    using checkOutputs_total by blast
  from a have "decryptMessage L (g_message args) k = Inr (g_message args)"
    by (simp add: decryptMessage_fails)
  with a b show "checkProposalCreation L args txp k = Inr False"
    by (simp add: checkProposalCreation_def seq_def Let_def)
next
  assume a: "p_outputs txp = Some outputs \<and> (o1, o2) \<in> set (zip outputs (g_outputs args))
        \<and> decryptionFails L (o_message o2) k \<and> \<not> strEqual (o_message o1) (o_message o2)"
  then have "checkOutputs L k (zip outputs (g_outputs args)) = Inr False"
    by (auto intro: checkOutputs_mismatch)
  with a show "checkProposalCreation L args txp k = Inr False"
    by (simp add: checkProposalCreation_def seq_def)
qed

text \<open>The stored proposal \<open>ex_stored\<close> agrees with the submission \<open>ex_args\<close>; with the
  overall message, or the message of the output, replaced by a string that does not
  decrypt and differs from the stored message the check gives false.\<close>

theorem decryption_failure_is_absorbed_witness:
  "decryptionFails stub (Some ''tampered'') ''k''
   \<and> decryptMessage stub (Some ''tampered'') ''k'' = Inr (Some ''tampered'')
   \<and> p_outputs ex_stored = Some (the (p_outputs ex_stored))
   \<and> \<not> strEqual (p_message ex_stored) (Some ''tampered'')
   \<and> checkProposalCreation stub (ex_args\<lparr> g_message := Some ''tampered'' \<rparr>) ex_stored ''k'' = Inr False
   \<and> decryptionFails stub (Some ''garbled'') ''k''
   \<and> map o_message (the (p_outputs ex_stored)) = [Some ''rent'']
   \<and> \<not> strEqual (Some ''rent'') (Some ''garbled'')
   \<and> checkProposalCreation stub
         (ex_args\<lparr> g_outputs := map (\<lambda>o'. o'\<lparr> o_message := Some ''garbled'' \<rparr>) (g_outputs ex_args) \<rparr>)
         ex_stored ''k'' = Inr False
   \<and> checkProposalCreation stub ex_args ex_stored ''k'' = Inr True"
  using decryption_failure_is_absorbed [where L = stub and c = "Some ''tampered''" and k = "''k''"
      and txp = ex_stored and outputs = "the (p_outputs ex_stored)"
      and args = "ex_args\<lparr> g_message := Some ''tampered'' \<rparr>"]
    decryption_failure_is_absorbed [where L = stub and c = "Some ''garbled''" and k = "''k''"
      and txp = ex_stored and outputs = "the (p_outputs ex_stored)"
      and args = "ex_args\<lparr> g_outputs := map (\<lambda>o'. o'\<lparr> o_message := Some ''garbled'' \<rparr>) (g_outputs ex_args) \<rparr>"
      and ?o1.0 = "hd (the (p_outputs ex_stored))"
      and ?o2.0 = "hd (map (\<lambda>o'. o'\<lparr> o_message := Some ''garbled'' \<rparr>) (g_outputs ex_args))"]
  by (simp add: decryptionFails_def decryptMessage_def checkProposalCreation_def strEqual_def
      ex_args_def ex_stored_def stub_simps)

text \<open>
  C7 as it is stated has a failed decryption yield a value unequal to any expected
  plaintext and contribute a false result. The submitted message \<open>hello\<close> does not
  decrypt; \<^verbatim>\<open>decryptMessage\<close> returns it as it is, it equals the stored plaintext \<open>hello\<close>,
  and \<^verbatim>\<open>checkProposalCreation\<close> gives true.
\<close>

theorem decryptMessage_returns_ciphertext_counterexample:
  "decryptionFails stub (Some ''hello'') ''k''
   \<and> decryptMessage stub (Some ''hello'') ''k'' = Inr (Some ''hello'')
   \<and> g_message ex_args = Some ''hello'' \<and> p_message ex_stored = Some ''hello''
   \<and> checkProposalCreation stub ex_args ex_stored ''k'' = Inr True"
  by (simp add: decryptionFails_def decryptMessage_def checkProposalCreation_def strEqual_def
      ex_args_def ex_stored_def stub_simps)

section \<open>\<^verbatim>\<open>checkPaypro\<close>\<close>

text \<open>
  C8, as the code has it. For a proposal whose version parses to 3 or more and that has
  at least one output, \<^verbatim>\<open>checkPaypro\<close> returns true if and only if the destination
  address of the first output equals the target's \<^verbatim>\<open>toAddress\<close> and the proposal's own
  \<^verbatim>\<open>amount\<close> (\<^verbatim>\<open>txp.amount\<close>, not the amount of the first output) equals the target's
  \<^verbatim>\<open>amount\<close>; it returns false otherwise. The version parses to 3 or more when
  \<^verbatim>\<open>parseInt\<close> gives a number that is at least 3 (\<^verbatim>\<open>NaN\<close> is not). The amounts are compared
  as the numbers read from them, which are the amounts themselves below \<open>2 ^ 53\<close> in
  magnitude.
\<close>

theorem checkPaypro_current:
  "(version_ge_3 L (p_version txp) \<and> p_outputs txp = Some (o' # rest) \<longrightarrow>
      checkPaypro L txp payproOpts =
        Inr (o_toAddress o' = pp_toAddress payproOpts
             \<and> same_number (p_amount txp) (pp_amount payproOpts)))
   \<and> (version_ge_3 L (p_version txp) \<longleftrightarrow>
        parseInt L (p_version txp) = PosInfinity
        \<or> (\<exists>k. parseInt L (p_version txp) = Finite k \<and> 3 \<le> k))
   \<and> (\<bar>a\<bar> < 2 ^ 53 \<and> \<bar>b\<bar> < 2 ^ 53 \<longrightarrow> (same_number (Some a) (Some b) \<longleftrightarrow> a = b))
   \<and> \<not> same_number (Some a) None \<and> \<not> same_number None (Some b) \<and> same_number None None"
proof (intro conjI impI)
  assume "version_ge_3 L (p_version txp) \<and> p_outputs txp = Some (o' # rest)"
  then show "checkPaypro L txp payproOpts =
        Inr (o_toAddress o' = pp_toAddress payproOpts
             \<and> same_number (p_amount txp) (pp_amount payproOpts))"
    by (simp add: checkPaypro_def seq_def)
next
  show "version_ge_3 L (p_version txp) \<longleftrightarrow>
        parseInt L (p_version txp) = PosInfinity
        \<or> (\<exists>k. parseInt L (p_version txp) = Finite k \<and> 3 \<le> k)"
    by (cases "parseInt L (p_version txp)") (simp_all add: version_ge_3_def double_ge_def)
next
  assume "\<bar>a\<bar> < 2 ^ 53 \<and> \<bar>b\<bar> < 2 ^ 53"
  then show "same_number (Some a) (Some b) \<longleftrightarrow> a = b"
    by (simp add: same_number_def to_double_exact)
qed (simp_all add: same_number_def)

text \<open>The proposal \<open>ex_txp\<close>, of version 3 and amount 99990000, against a target of that
  amount to the address of its first output.\<close>

theorem checkPaypro_current_witness:
  "version_ge_3 stub (p_version ex_txp) \<and> parseInt stub (p_version ex_txp) = Finite 3
   \<and> p_outputs ex_txp = Some (the (p_outputs ex_txp))
   \<and> same_number (p_amount ex_txp) (Some 99990000)
   \<and> checkPaypro stub ex_txp \<lparr> pp_toAddress = Some ''addr1'', pp_amount = Some 99990000 \<rparr> = Inr True"
  using checkPaypro_current [where L = stub and txp = ex_txp and o' = "hd (the (p_outputs ex_txp))"
      and rest = "tl (the (p_outputs ex_txp))"
      and payproOpts = "\<lparr> pp_toAddress = Some ''addr1'', pp_amount = Some 99990000 \<rparr>"
      and a = 99990000 and b = 99990000]
  by (simp add: ex_txp_def stub_def stub_parseInt_def to_double_exact)

text \<open>
  C8 as it is stated compares the amount of the first output. The first output of
  \<open>ex_txp\<close> pays 60000000 to \<open>addr1\<close>: a target of 60000000 to \<open>addr1\<close> is refused, and
  a target of 99990000 to \<open>addr1\<close>, which no output pays, is accepted.
\<close>

theorem checkPaypro_first_amount_counterexample:
  "version_ge_3 stub (p_version ex_txp)
   \<and> map o_amount (the (p_outputs ex_txp)) = [60000000, 39990000]
   \<and> map o_toAddress (the (p_outputs ex_txp)) = [Some ''addr1'', Some ''addr2'']
   \<and> checkPaypro stub ex_txp \<lparr> pp_toAddress = Some ''addr1'', pp_amount = Some 60000000 \<rparr> = Inr False
   \<and> checkPaypro stub ex_txp \<lparr> pp_toAddress = Some ''addr1'', pp_amount = Some 99990000 \<rparr> = Inr True"
  by (simp add: ex_txp_def version_ge_3_def double_ge_def checkPaypro_def seq_def same_number_def
      stub_def stub_parseInt_def to_double_exact)

section \<open>The roster of copayers\<close>

text \<open>
  C3 does not hold of the code. The roster \<open>dup_roster\<close> has three entries for the
  wallet \<open>ex_wallet\<close> of three copayers, each with its name, keys and a signature that
  verifies under the wallet's key, and the wallet's own extended public key is among
  them; the second and the third entry carry the same extended public key.
  \<^verbatim>\<open>checkCopayers\<close> returns true, as it does for the roster \<open>ex_roster\<close> of three
  different keys.
\<close>

theorem checkCopayers_accepts_repeated_xPubKey:
  "checkCopayers stub ex_wallet dup_roster = Inr True
   \<and> map cp_xPubKey dup_roster = [Some ''xpubA'', Some ''xpubB'', Some ''xpubB'']
   \<and> checkCopayers stub ex_wallet ex_roster = Inr True"
  by (simp add: checkCopayers_def checkCopayers_each_def post_increment_def to_number_def plus_one_def
      truthy_number_def property_key_def copayers_xPubKey_def ex_wallet_def dup_roster_def ex_roster_def
      signed_copayer_def verifyMessage_def hashMessage_def getCopayerHash_def stub_simps)

section \<open>Arguments that are written\<close>








end
